theory Spec2Isabelle
  imports Main "HOL-Library.Word"
begin

section \<open>The host platform: errors, array buffers and views\<close>

text \<open>
  The program is TypeScript. Every \<^verbatim>\<open>throw\<close> of the source and every exception of the
  platform objects it calls is a value \<open>Inl e\<close> of a sum type. An \<^verbatim>\<open>ArrayBuffer\<close> is the
  list of its bytes; a function that writes into a buffer takes it and returns the updated
  one. Numbers are modelled as natural numbers: every number the program reads is an
  unsigned integer, and a number written through \<^verbatim>\<open>setUint16\<close> or \<^verbatim>\<open>setUint32\<close>
  is reduced modulo \<open>2 ^ 16\<close> or \<open>2 ^ 32\<close> as the platform does.
\<close>

datatype error = RangeError | TypeError | Error string | Error_template string nat string

text \<open>
  \<open>Error_template before n after\<close> is an \<^verbatim>\<open>Error\<close> whose message is a template literal with one
  number in it: the text before the number, the number and the text after it. How the
  platform prints the number is not modelled.
\<close>

type_synonym byte = "8 word"
type_synonym ArrayBuffer = "byte list"

fun andThen :: "error + 'a \<Rightarrow> ('a \<Rightarrow> error + 'b) \<Rightarrow> error + 'b" where
  "andThen (Inl e) f = Inl e"
| "andThen (Inr x) f = f x"

text \<open>A \<^verbatim>\<open>DataView\<close> is a window of its buffer; the buffer itself is passed beside it.\<close>

record DataView =
  byteOffset :: nat
  byteLength :: nat

definition new_DataView :: "ArrayBuffer \<Rightarrow> nat \<Rightarrow> nat \<Rightarrow> error + DataView" where
  "new_DataView buffer off len =
     (if off + len \<le> length buffer then Inr \<lparr>byteOffset = off, byteLength = len\<rparr>
      else Inl RangeError)"

definition bytes_at :: "ArrayBuffer \<Rightarrow> nat \<Rightarrow> nat \<Rightarrow> byte list" where
  "bytes_at buffer pos n = take n (drop pos buffer)"

definition write_bytes :: "ArrayBuffer \<Rightarrow> nat \<Rightarrow> byte list \<Rightarrow> ArrayBuffer" where
  "write_bytes buffer pos bs = take pos buffer @ bs @ drop (pos + length bs) buffer"

definition u16_bytes :: "nat \<Rightarrow> byte list" where
  "u16_bytes v = (let w = v mod 65536 in [of_nat w, of_nat (w div 256)])"

definition u32_bytes :: "nat \<Rightarrow> byte list" where
  "u32_bytes v =
     (let w = v mod 4294967296
      in [of_nat w, of_nat (w div 256), of_nat (w div 65536), of_nat (w div 16777216)])"

fun le_value :: "byte list \<Rightarrow> nat" where
  "le_value [] = 0"
| "le_value (b # bs) = unat b + 256 * le_value bs"

definition set_bytes :: "DataView \<Rightarrow> nat \<Rightarrow> byte list \<Rightarrow> ArrayBuffer \<Rightarrow> error + ArrayBuffer" where
  "set_bytes view idx bs buffer =
     (if idx + length bs > byteLength view then Inl RangeError
      else Inr (write_bytes buffer (byteOffset view + idx) bs))"

definition get_bytes :: "DataView \<Rightarrow> nat \<Rightarrow> nat \<Rightarrow> ArrayBuffer \<Rightarrow> error + byte list" where
  "get_bytes view idx n buffer =
     (if idx + n > byteLength view then Inl RangeError
      else Inr (bytes_at buffer (byteOffset view + idx) n))"

definition setUint16 :: "DataView \<Rightarrow> nat \<Rightarrow> nat \<Rightarrow> bool \<Rightarrow> ArrayBuffer \<Rightarrow> error + ArrayBuffer" where
  "setUint16 view idx v littleEndian buffer =
     set_bytes view idx (if littleEndian then u16_bytes v else rev (u16_bytes v)) buffer"

definition setUint32 :: "DataView \<Rightarrow> nat \<Rightarrow> nat \<Rightarrow> bool \<Rightarrow> ArrayBuffer \<Rightarrow> error + ArrayBuffer" where
  "setUint32 view idx v littleEndian buffer =
     set_bytes view idx (if littleEndian then u32_bytes v else rev (u32_bytes v)) buffer"

definition getUint16 :: "DataView \<Rightarrow> nat \<Rightarrow> bool \<Rightarrow> ArrayBuffer \<Rightarrow> error + nat" where
  "getUint16 view idx littleEndian buffer =
     andThen (get_bytes view idx 2 buffer)
       (\<lambda>bs. Inr (le_value (if littleEndian then bs else rev bs)))"

definition getUint32 :: "DataView \<Rightarrow> nat \<Rightarrow> bool \<Rightarrow> ArrayBuffer \<Rightarrow> error + nat" where
  "getUint32 view idx littleEndian buffer =
     andThen (get_bytes view idx 4 buffer)
       (\<lambda>bs. Inr (le_value (if littleEndian then bs else rev bs)))"

text \<open>
  \<^verbatim>\<open>new Uint8Array(buffer, off, len)\<close> throws when the window leaves the buffer;
  \<^verbatim>\<open>.set(source, at)\<close> throws when the source does not fit into the window.
\<close>

definition new_Uint8Array :: "ArrayBuffer \<Rightarrow> nat \<Rightarrow> nat \<Rightarrow> error + byte list" where
  "new_Uint8Array buffer off len =
     (if off + len \<le> length buffer then Inr (bytes_at buffer off len) else Inl RangeError)"

definition Uint8Array_set :: "ArrayBuffer \<Rightarrow> nat \<Rightarrow> nat \<Rightarrow> byte list \<Rightarrow> nat \<Rightarrow> error + ArrayBuffer" where
  "Uint8Array_set buffer off len source at =
     (if off + len > length buffer then Inl RangeError
      else if length source + at > len then Inl RangeError
      else Inr (write_bytes buffer (off + at) source))"

text \<open>\<^verbatim>\<open>if (idx & 1) idx ++\<close>\<close>

definition align :: "nat \<Rightarrow> nat" where
  "align idx = (if odd idx then idx + 1 else idx)"

subsection \<open>Text encoding\<close>

text \<open>
  A string of the program is a sequence of UTF-16 code units, and \<^verbatim>\<open>.length\<close>
  counts them. \<^verbatim>\<open>TextEncoder.encodeInto\<close> first replaces every unpaired surrogate by
  U+FFFD, then writes the UTF-8 bytes of as many whole code points as fit into the
  destination. \<^verbatim>\<open>TextDecoder.decode\<close> is the UTF-8 decoder of the Encoding Standard
  in its default mode: a malformed sequence yields U+FFFD, and a byte order mark at the
  start is dropped.
\<close>

type_synonym jsstring = "16 word list"

fun code_points :: "nat list \<Rightarrow> nat list" where
  "code_points [] = []"
| "code_points [u] = [if 55296 \<le> u \<and> u \<le> 57343 then 65533 else u]"
| "code_points (u # v # r) =
     (if 55296 \<le> u \<and> u \<le> 56319 \<and> 56320 \<le> v \<and> v \<le> 57343
      then (65536 + (u - 55296) * 1024 + (v - 56320)) # code_points r
      else (if 55296 \<le> u \<and> u \<le> 57343 then 65533 else u) # code_points (v # r))"

definition utf8 :: "nat \<Rightarrow> byte list" where
  "utf8 c =
     (if c < 128 then [of_nat c]
      else if c < 2048 then [of_nat (192 + c div 64), of_nat (128 + c mod 64)]
      else if c < 65536 then
        [of_nat (224 + c div 4096), of_nat (128 + c div 64 mod 64), of_nat (128 + c mod 64)]
      else
        [of_nat (240 + c div 262144), of_nat (128 + c div 4096 mod 64),
         of_nat (128 + c div 64 mod 64), of_nat (128 + c mod 64)])"

text \<open>
  The whole UTF-8 encoding of a string, as \<^verbatim>\<open>TextEncoder.encode\<close> gives it. The program does
  not call it; the number of UTF-8 bytes of a label is stated with it.
\<close>

definition utf8_bytes :: "jsstring \<Rightarrow> byte list" where
  "utf8_bytes s = concat (map utf8 (code_points (map unat s)))"

fun encode_fitting :: "nat list \<Rightarrow> nat \<Rightarrow> byte list" where
  "encode_fitting [] capacity = []"
| "encode_fitting (c # cs) capacity =
     (if length (utf8 c) \<le> capacity
      then utf8 c @ encode_fitting cs (capacity - length (utf8 c))
      else [])"

definition encodeInto :: "jsstring \<Rightarrow> nat \<Rightarrow> byte list" where
  "encodeInto s capacity = encode_fitting (code_points (map unat s)) capacity"

text \<open>
  The decoder's state: code point so far, bytes seen, bytes needed, lower and upper
  boundary of the next byte.
\<close>

type_synonym utf8_state = "nat \<times> nat \<times> nat \<times> nat \<times> nat"

definition utf8_start :: utf8_state where
  "utf8_start = (0, 0, 0, 128, 191)"

definition utf8_lead :: "nat \<Rightarrow> nat list \<times> utf8_state" where
  "utf8_lead b =
     (if b \<le> 127 then ([b], utf8_start)
      else if 194 \<le> b \<and> b \<le> 223 then ([], (b mod 32, 0, 1, 128, 191))
      else if 224 \<le> b \<and> b \<le> 239 then
        ([], (b mod 16, 0, 2, if b = 224 then 160 else 128, if b = 237 then 159 else 191))
      else if 240 \<le> b \<and> b \<le> 244 then
        ([], (b mod 8, 0, 3, if b = 240 then 144 else 128, if b = 244 then 143 else 191))
      else ([65533], utf8_start))"

fun utf8_decode :: "utf8_state \<Rightarrow> nat list \<Rightarrow> nat list" where
  "utf8_decode (cp, seen, needed, lo, hi) [] = (if needed \<noteq> 0 then [65533] else [])"
| "utf8_decode (cp, seen, needed, lo, hi) (b # bs) =
     (if needed = 0 then fst (utf8_lead b) @ utf8_decode (snd (utf8_lead b)) bs
      else if b < lo \<or> hi < b then
        65533 # fst (utf8_lead b) @ utf8_decode (snd (utf8_lead b)) bs
      else if seen + 1 \<noteq> needed then utf8_decode (cp * 64 + b mod 64, seen + 1, needed, 128, 191) bs
      else (cp * 64 + b mod 64) # utf8_decode utf8_start bs)"

definition utf16 :: "nat \<Rightarrow> jsstring" where
  "utf16 c =
     (if c < 65536 then [of_nat c]
      else [of_nat (55296 + (c - 65536) div 1024), of_nat (56320 + (c - 65536) mod 1024)])"

definition textDecoder_decode :: "byte list \<Rightarrow> jsstring" where
  "textDecoder_decode bs =
     (let cps = utf8_decode utf8_start (map unat bs)
      in concat (map utf16 (case cps of [] \<Rightarrow> [] | c # r \<Rightarrow> if c = 65279 then r else c # r)))"

section \<open>Chunks\<close>

text \<open>\<^verbatim>\<open>enum ChunkTagsBE\<close>\<close>

definition RIFF :: nat where "RIFF = 0x52494646"
definition WAVE :: nat where "WAVE = 0x57415645"
definition FMT :: nat where "FMT = 0x666D7420"
definition DATA :: nat where "DATA = 0x64617461"
definition CUE :: nat where "CUE = 0x63756520"
definition SMPL :: nat where "SMPL = 0x736D706C"
definition LIST :: nat where "LIST = 0x4C495354"
definition adtl :: nat where "adtl = 0x6164746C"
definition labl :: nat where "labl = 0x6C61626C"
definition INFO :: nat where "INFO = 0x494E464F"

text \<open>
  The fields of \<^verbatim>\<open>Cue\<close> are id, position, chunkId, chunkStart, blockStart and
  sampleOffset; those of \<^verbatim>\<open>SampleLoop\<close> are id, type, start, end, fraction and
  playCount, in the order of the constructors of the source.
\<close>

datatype Cue = Cue nat nat nat nat nat nat

datatype SampleLoop = SampleLoop nat nat nat nat nat nat

text \<open>
  The classes that implement \<^verbatim>\<open>Chunk\<close>, each with the parameters of its constructor in
  the order of the source. A \<^verbatim>\<open>Uint8Array\<close> field is the list of its bytes, an optional
  one an \<open>option\<close>. For \<^verbatim>\<open>SampleChunk\<close> the order is samplePeriod, samplerData,
  sampleLoops, manufacturer, product, midiUnityNote, midiPitchFraction, smpteFormat,
  smpteOffset.
\<close>

datatype Chunk =
    UnknownChunk nat "byte list"
  | FormatChunk (compressionCode: nat) (channelCount: nat) (sampleRate: nat)
      (avgBytesPerSecond: nat) (blockAlign: nat) (sigBitsPerSample: nat)
      (extraFormatBytes: "byte list option")
  | CueChunk "Cue list"
  | SampleChunk nat "byte list option" "SampleLoop list" nat nat nat nat nat nat
  | ListChunk_ADTL_LABL (cueId: nat) (cueLabel: jsstring)
  | ListChunk_ADTL "Chunk list"
  | ListChunk Chunk
  | DataChunk "byte list"

fun tag :: "Chunk \<Rightarrow> nat" where
  "tag (UnknownChunk t d) = t"
| "tag (FormatChunk cc ch sr av ba sb ex) = FMT"
| "tag (CueChunk cs) = CUE"
| "tag (SampleChunk sp sd ls mf pr un pf sf so) = SMPL"
| "tag (ListChunk_ADTL_LABL i l) = labl"
| "tag (ListChunk_ADTL cs) = adtl"
| "tag (ListChunk b) = LIST"
| "tag (DataChunk d) = DATA"

subsection \<open>length()\<close>

text \<open>
  \<^verbatim>\<open>FormatChunk.length\<close> reads \<^verbatim>\<open>this.extraFormatBytes!.length\<close>, which throws a
  TypeError when the field is undefined. \<^verbatim>\<open>ListChunk_ADTL.length\<close> is
  \<^verbatim>\<open>reduce((a, b) => a + 8 + b.length(), 0)\<close>.
\<close>

fun length_chunk :: "Chunk \<Rightarrow> error + nat"
  and length_reduce :: "Chunk list \<Rightarrow> nat \<Rightarrow> error + nat" where
  "length_chunk (UnknownChunk t d) = Inr (length d)"
| "length_chunk (FormatChunk cc ch sr av ba sb ex) =
     (if cc \<le> 1 then Inr 16
      else case ex of None \<Rightarrow> Inl TypeError | Some e \<Rightarrow> Inr (18 + length e))"
| "length_chunk (CueChunk cs) = Inr (4 + length cs * 24)"
| "length_chunk (SampleChunk sp sd ls mf pr un pf sf so) =
     Inr (36 + length ls * 24 + (case sd of None \<Rightarrow> 0 | Some d \<Rightarrow> length d))"
| "length_chunk (ListChunk_ADTL_LABL i l) = Inr (align (4 + length l + 1))"
| "length_chunk (ListChunk_ADTL cs) = length_reduce cs 0"
| "length_chunk (ListChunk b) =
     (case length_chunk b of Inl e \<Rightarrow> Inl e | Inr n \<Rightarrow> Inr (4 + n))"
| "length_chunk (DataChunk d) = Inr (length d)"
| "length_reduce [] a = Inr a"
| "length_reduce (b # bs) a =
     (case length_chunk b of Inl e \<Rightarrow> Inl e | Inr n \<Rightarrow> length_reduce bs (a + 8 + n))"

subsection \<open>pack\<close>

definition UnknownChunk_pack :: "byte list \<Rightarrow> DataView \<Rightarrow> ArrayBuffer \<Rightarrow> error + ArrayBuffer" where
  "UnknownChunk_pack d into buffer =
     Uint8Array_set buffer (byteOffset into) (byteLength into) d 0"

definition FormatChunk_pack ::
  "nat \<Rightarrow> nat \<Rightarrow> nat \<Rightarrow> nat \<Rightarrow> nat \<Rightarrow> nat \<Rightarrow> byte list option \<Rightarrow> DataView \<Rightarrow> ArrayBuffer
     \<Rightarrow> error + ArrayBuffer" where
  "FormatChunk_pack cc ch sr av ba sb ex into buffer =
     andThen (setUint16 into 0 cc True buffer) (\<lambda>buffer.
     andThen (setUint16 into 2 ch True buffer) (\<lambda>buffer.
     andThen (setUint32 into 4 sr True buffer) (\<lambda>buffer.
     andThen (setUint32 into 8 av True buffer) (\<lambda>buffer.
     andThen (setUint16 into 12 ba True buffer) (\<lambda>buffer.
     andThen (setUint16 into 14 sb True buffer) (\<lambda>buffer.
       if cc > 1 then
         andThen (setUint16 into 16 (case ex of None \<Rightarrow> 0 | Some e \<Rightarrow> length e) True buffer)
           (\<lambda>buffer. case ex of
              None \<Rightarrow> Inr buffer
            | Some e \<Rightarrow> Uint8Array_set buffer (byteOffset into) (byteLength into) e 18)
       else Inr buffer))))))"

definition six_pack ::
  "nat \<Rightarrow> nat \<Rightarrow> nat \<Rightarrow> nat \<Rightarrow> nat \<Rightarrow> nat \<Rightarrow> DataView \<Rightarrow> nat \<Rightarrow> ArrayBuffer \<Rightarrow> error + ArrayBuffer" where
  "six_pack a b c d e f into idx buffer =
     andThen (setUint32 into (idx + 0) a True buffer) (\<lambda>buffer.
     andThen (setUint32 into (idx + 4) b True buffer) (\<lambda>buffer.
     andThen (setUint32 into (idx + 8) c True buffer) (\<lambda>buffer.
     andThen (setUint32 into (idx + 12) d True buffer) (\<lambda>buffer.
     andThen (setUint32 into (idx + 16) e True buffer) (\<lambda>buffer.
     setUint32 into (idx + 20) f True buffer)))))"

fun Cue_pack :: "Cue \<Rightarrow> DataView \<Rightarrow> nat \<Rightarrow> ArrayBuffer \<Rightarrow> error + ArrayBuffer" where
  "Cue_pack (Cue a b c d e f) into idx buffer = six_pack a b c d e f into idx buffer"

fun SampleLoop_pack :: "SampleLoop \<Rightarrow> DataView \<Rightarrow> nat \<Rightarrow> ArrayBuffer \<Rightarrow> error + ArrayBuffer" where
  "SampleLoop_pack (SampleLoop a b c d e f) into idx buffer = six_pack a b c d e f into idx buffer"

fun pack_cues :: "Cue list \<Rightarrow> DataView \<Rightarrow> nat \<Rightarrow> ArrayBuffer \<Rightarrow> error + ArrayBuffer" where
  "pack_cues [] into idx buffer = Inr buffer"
| "pack_cues (c # cs) into idx buffer =
     andThen (Cue_pack c into idx buffer) (pack_cues cs into (idx + 24))"

fun pack_loops :: "SampleLoop list \<Rightarrow> DataView \<Rightarrow> nat \<Rightarrow> ArrayBuffer \<Rightarrow> error + ArrayBuffer" where
  "pack_loops [] into idx buffer = Inr buffer"
| "pack_loops (l # ls) into idx buffer =
     andThen (SampleLoop_pack l into idx buffer) (pack_loops ls into (idx + 24))"

definition CueChunk_pack :: "Cue list \<Rightarrow> DataView \<Rightarrow> ArrayBuffer \<Rightarrow> error + ArrayBuffer" where
  "CueChunk_pack cs into buffer =
     andThen (setUint32 into 0 (length cs) True buffer) (pack_cues cs into 4)"

definition SampleChunk_pack ::
  "nat \<Rightarrow> byte list option \<Rightarrow> SampleLoop list \<Rightarrow> nat \<Rightarrow> nat \<Rightarrow> nat \<Rightarrow> nat \<Rightarrow> nat \<Rightarrow> nat
     \<Rightarrow> DataView \<Rightarrow> ArrayBuffer \<Rightarrow> error + ArrayBuffer" where
  "SampleChunk_pack sp sd ls mf pr un pf sf so into buffer =
     andThen (setUint32 into 0 mf True buffer) (\<lambda>buffer.
     andThen (setUint32 into 4 pr True buffer) (\<lambda>buffer.
     andThen (setUint32 into 8 sp True buffer) (\<lambda>buffer.
     andThen (setUint32 into 12 un True buffer) (\<lambda>buffer.
     andThen (setUint32 into 16 pf True buffer) (\<lambda>buffer.
     andThen (setUint32 into 20 sf True buffer) (\<lambda>buffer.
     andThen (setUint32 into 24 so True buffer) (\<lambda>buffer.
     andThen (setUint32 into 28 (length ls) True buffer) (\<lambda>buffer.
     andThen (setUint32 into 32 (case sd of None \<Rightarrow> 0 | Some d \<Rightarrow> length d) True buffer) (\<lambda>buffer.
     andThen (pack_loops ls into 36 buffer) (\<lambda>buffer.
       case sd of
         None \<Rightarrow> Inr buffer
       | Some d \<Rightarrow>
           Uint8Array_set buffer (byteOffset into) (byteLength into) d (36 + length ls * 24)
     ))))))))))"

text \<open>
  \<^verbatim>\<open>ListChunk_ADTL_LABL.pack\<close> gives \<^verbatim>\<open>encodeInto\<close> the window
  \<^verbatim>\<open>new Uint8Array(into.buffer, into.byteOffset + 4, into.byteLength)\<close>: it starts
  four bytes into the view and is as long as the whole view.
\<close>

definition ListChunk_ADTL_LABL_pack :: "nat \<Rightarrow> jsstring \<Rightarrow> DataView \<Rightarrow> ArrayBuffer \<Rightarrow> error + ArrayBuffer" where
  "ListChunk_ADTL_LABL_pack i l into buffer =
     andThen (setUint32 into 0 i True buffer) (\<lambda>buffer.
     andThen (new_Uint8Array buffer (byteOffset into + 4) (byteLength into)) (\<lambda>window.
       Inr (write_bytes buffer (byteOffset into + 4) (encodeInto l (byteLength into)))))"

definition DataChunk_pack :: "byte list \<Rightarrow> DataView \<Rightarrow> ArrayBuffer \<Rightarrow> error + ArrayBuffer" where
  "DataChunk_pack d into buffer =
     Uint8Array_set buffer (byteOffset into) (byteLength into) d 0"

text \<open>
  \<open>pack_items\<close> is the loop of \<^verbatim>\<open>ListChunk_ADTL.pack\<close>, with its cursor \<open>idx\<close>.
\<close>

fun pack :: "Chunk \<Rightarrow> DataView \<Rightarrow> ArrayBuffer \<Rightarrow> error + ArrayBuffer"
  and pack_items :: "Chunk list \<Rightarrow> DataView \<Rightarrow> nat \<Rightarrow> ArrayBuffer \<Rightarrow> error + ArrayBuffer" where
  "pack (UnknownChunk t d) into buffer = UnknownChunk_pack d into buffer"
| "pack (FormatChunk cc ch sr av ba sb ex) into buffer =
     FormatChunk_pack cc ch sr av ba sb ex into buffer"
| "pack (CueChunk cs) into buffer = CueChunk_pack cs into buffer"
| "pack (SampleChunk sp sd ls mf pr un pf sf so) into buffer =
     SampleChunk_pack sp sd ls mf pr un pf sf so into buffer"
| "pack (ListChunk_ADTL_LABL i l) into buffer = ListChunk_ADTL_LABL_pack i l into buffer"
| "pack (ListChunk_ADTL cs) into buffer = pack_items cs into 0 buffer"
| "pack (ListChunk b) into buffer =
     (case setUint32 into 0 (tag b) False buffer of
        Inl e \<Rightarrow> Inl e
      | Inr buffer \<Rightarrow>
          (case new_DataView buffer (byteOffset into + 4) (byteLength into - 4) of
             Inl e \<Rightarrow> Inl e
           | Inr bodyView \<Rightarrow> pack b bodyView buffer))"
| "pack (DataChunk d) into buffer = DataChunk_pack d into buffer"
| "pack_items [] into idx buffer = Inr buffer"
| "pack_items (c # cs) into idx buffer =
     (case length_chunk c of
        Inl e \<Rightarrow> Inl e
      | Inr chunkSize \<Rightarrow>
          (case setUint32 into idx (tag c) False buffer of
             Inl e \<Rightarrow> Inl e
           | Inr buffer \<Rightarrow>
               (case setUint32 into (idx + 4) chunkSize True buffer of
                  Inl e \<Rightarrow> Inl e
                | Inr buffer \<Rightarrow>
                    (case new_DataView buffer (byteOffset into + (idx + 8)) chunkSize of
                       Inl e \<Rightarrow> Inl e
                     | Inr chunkView \<Rightarrow>
                         (case pack c chunkView buffer of
                            Inl e \<Rightarrow> Inl e
                          | Inr buffer \<Rightarrow> pack_items cs into (idx + 8 + chunkSize) buffer)))))"

subsection \<open>unpack\<close>

definition UnknownChunk_unpack :: "DataView \<Rightarrow> nat \<Rightarrow> ArrayBuffer \<Rightarrow> error + Chunk" where
  "UnknownChunk_unpack from t buffer =
     andThen (new_Uint8Array buffer (byteOffset from) (byteLength from)) (\<lambda>d.
       Inr (UnknownChunk t d))"

definition FormatChunk_unpack :: "DataView \<Rightarrow> nat \<Rightarrow> ArrayBuffer \<Rightarrow> error + Chunk" where
  "FormatChunk_unpack from t buffer =
     andThen (getUint16 from 0 True buffer) (\<lambda>cc.
     andThen
       (if cc > 1 then
          andThen (getUint16 from 16 True buffer) (\<lambda>extraFormatBytesLength.
          andThen (new_Uint8Array buffer (byteOffset from + 18) extraFormatBytesLength) (\<lambda>e.
            Inr (Some e)))
        else Inr None) (\<lambda>ex.
     andThen (getUint16 from 2 True buffer) (\<lambda>ch.
     andThen (getUint32 from 4 True buffer) (\<lambda>sr.
     andThen (getUint32 from 8 True buffer) (\<lambda>av.
     andThen (getUint16 from 12 True buffer) (\<lambda>ba.
     andThen (getUint16 from 14 True buffer) (\<lambda>sb.
       Inr (FormatChunk cc ch sr av ba sb ex))))))))"

definition six_unpack ::
  "(nat \<Rightarrow> nat \<Rightarrow> nat \<Rightarrow> nat \<Rightarrow> nat \<Rightarrow> nat \<Rightarrow> 'a) \<Rightarrow> DataView \<Rightarrow> nat \<Rightarrow> ArrayBuffer \<Rightarrow> error + 'a" where
  "six_unpack mk from idx buffer =
     andThen (getUint32 from (idx + 0) True buffer) (\<lambda>a.
     andThen (getUint32 from (idx + 4) True buffer) (\<lambda>b.
     andThen (getUint32 from (idx + 8) True buffer) (\<lambda>c.
     andThen (getUint32 from (idx + 12) True buffer) (\<lambda>d.
     andThen (getUint32 from (idx + 16) True buffer) (\<lambda>e.
     andThen (getUint32 from (idx + 20) True buffer) (\<lambda>f.
       Inr (mk a b c d e f)))))))"

definition Cue_unpack :: "DataView \<Rightarrow> nat \<Rightarrow> ArrayBuffer \<Rightarrow> error + Cue" where
  "Cue_unpack = six_unpack Cue"

definition SampleLoop_unpack :: "DataView \<Rightarrow> nat \<Rightarrow> ArrayBuffer \<Rightarrow> error + SampleLoop" where
  "SampleLoop_unpack = six_unpack SampleLoop"

text \<open>
  The loops \<^verbatim>\<open>for (let i=0, idx=..; i<count; i++, idx+=24)\<close> of
  \<^verbatim>\<open>CueChunk.unpack\<close> and \<^verbatim>\<open>SampleChunk.unpack\<close>; the first argument is the
  number of records still to read.
\<close>

fun unpack_cues :: "nat \<Rightarrow> DataView \<Rightarrow> nat \<Rightarrow> ArrayBuffer \<Rightarrow> error + Cue list" where
  "unpack_cues 0 from idx buffer = Inr []"
| "unpack_cues (Suc n) from idx buffer =
     andThen (Cue_unpack from idx buffer) (\<lambda>c.
     andThen (unpack_cues n from (idx + 24) buffer) (\<lambda>cs. Inr (c # cs)))"

fun unpack_loops :: "nat \<Rightarrow> DataView \<Rightarrow> nat \<Rightarrow> ArrayBuffer \<Rightarrow> error + SampleLoop list" where
  "unpack_loops 0 from idx buffer = Inr []"
| "unpack_loops (Suc n) from idx buffer =
     andThen (SampleLoop_unpack from idx buffer) (\<lambda>l.
     andThen (unpack_loops n from (idx + 24) buffer) (\<lambda>ls. Inr (l # ls)))"

definition CueChunk_unpack :: "DataView \<Rightarrow> nat \<Rightarrow> ArrayBuffer \<Rightarrow> error + Chunk" where
  "CueChunk_unpack from t buffer =
     andThen (getUint32 from 0 True buffer) (\<lambda>count.
     andThen (unpack_cues count from 4 buffer) (\<lambda>cs. Inr (CueChunk cs)))"

definition SampleChunk_unpack :: "DataView \<Rightarrow> nat \<Rightarrow> ArrayBuffer \<Rightarrow> error + Chunk" where
  "SampleChunk_unpack from t buffer =
     andThen (getUint32 from 28 True buffer) (\<lambda>sampleLoopCount.
     andThen (getUint32 from 32 True buffer) (\<lambda>samplerDataSize.
     andThen
       (if samplerDataSize \<noteq> 0 then
          andThen (new_Uint8Array buffer (byteOffset from + 36 + sampleLoopCount * 24)
                     samplerDataSize) (\<lambda>d. Inr (Some d))
        else Inr None) (\<lambda>sd.
     andThen (unpack_loops sampleLoopCount from 36 buffer) (\<lambda>ls.
     andThen (getUint32 from 8 True buffer) (\<lambda>sp.
     andThen (getUint32 from 0 True buffer) (\<lambda>mf.
     andThen (getUint32 from 4 True buffer) (\<lambda>pr.
     andThen (getUint32 from 12 True buffer) (\<lambda>un.
     andThen (getUint32 from 16 True buffer) (\<lambda>pf.
     andThen (getUint32 from 20 True buffer) (\<lambda>sf.
     andThen (getUint32 from 24 True buffer) (\<lambda>so.
       Inr (SampleChunk sp sd ls mf pr un pf sf so))))))))))))"

text \<open>
  \<^verbatim>\<open>from.buffer.slice(from.byteOffset + 4, from.byteOffset + from.byteLength)\<close> copies
  the bytes after the cue id; \<^verbatim>\<open>indexOf(0)\<close> finds the first zero byte, and the bytes
  before it (all of them when there is none) are decoded.
\<close>

definition ListChunk_ADTL_LABL_unpack :: "DataView \<Rightarrow> nat \<Rightarrow> ArrayBuffer \<Rightarrow> error + Chunk" where
  "ListChunk_ADTL_LABL_unpack from t buffer =
     andThen (getUint32 from 0 True buffer) (\<lambda>i.
       let cueLabelBytes = bytes_at buffer (byteOffset from + 4) (byteLength from - 4)
       in Inr (ListChunk_ADTL_LABL i (textDecoder_decode (takeWhile (\<lambda>b. b \<noteq> 0) cueLabelBytes))))"

text \<open>
  A registry maps a tag to the \<^verbatim>\<open>unpack\<close> of a class; \<^verbatim>\<open>registry[tag] ?? UnknownChunk\<close>
  is \<open>lookup\<close>.
\<close>

type_synonym ChunkStatic = "DataView \<Rightarrow> nat \<Rightarrow> ArrayBuffer \<Rightarrow> error + Chunk"

definition lookup :: "(nat \<rightharpoonup> ChunkStatic) \<Rightarrow> nat \<Rightarrow> ChunkStatic" where
  "lookup registry t = (case registry t of None \<Rightarrow> UnknownChunk_unpack | Some u \<Rightarrow> u)"

definition ListChunk_ADTL_chunkRegistry :: "nat \<rightharpoonup> ChunkStatic" where
  "ListChunk_ADTL_chunkRegistry = [labl \<mapsto> ListChunk_ADTL_LABL_unpack]"

text \<open>
  One pass of the \<^verbatim>\<open>while\<close> loop of \<^verbatim>\<open>ListChunk_ADTL.unpack\<close>: the chunk read at
  \<open>idx\<close> and the cursor after it.
\<close>

definition ListChunk_ADTL_unpack_item :: "DataView \<Rightarrow> ArrayBuffer \<Rightarrow> nat \<Rightarrow> error + Chunk \<times> nat" where
  "ListChunk_ADTL_unpack_item from buffer idx =
     andThen (getUint32 from idx False buffer) (\<lambda>chunkTag.
     andThen (getUint32 from (idx + 4) True buffer) (\<lambda>chunkSize.
     andThen (new_DataView buffer (byteOffset from + (idx + 8)) chunkSize) (\<lambda>chunkView.
     andThen (lookup ListChunk_ADTL_chunkRegistry chunkTag chunkView chunkTag buffer) (\<lambda>chunk.
       Inr (chunk, align (idx + 8 + chunkSize))))))"

function ListChunk_ADTL_unpack_loop ::
  "DataView \<Rightarrow> ArrayBuffer \<Rightarrow> nat \<Rightarrow> Chunk list \<Rightarrow> error + Chunk list" where
  "ListChunk_ADTL_unpack_loop from buffer idx chunks =
     (if idx < byteLength from then
        (case ListChunk_ADTL_unpack_item from buffer idx of
           Inl e \<Rightarrow> Inl e
         | Inr (chunk, idx') \<Rightarrow> ListChunk_ADTL_unpack_loop from buffer idx' (chunks @ [chunk]))
      else Inr chunks)"
  by pat_completeness auto
termination
proof (relation "measure (\<lambda>(from, buffer, idx, chunks). byteLength from - idx)")
  show "wf (measure (\<lambda>(from, buffer, idx, chunks). byteLength from - idx))"
    by simp
next
  fix "from" :: DataView and buffer :: ArrayBuffer and idx :: nat and chunks :: "Chunk list"
    and x :: "Chunk \<times> nat" and chunk :: Chunk and idx' :: nat
  assume lt: "idx < byteLength from"
    and item: "ListChunk_ADTL_unpack_item from buffer idx = Inr x"
    and x: "(chunk, idx') = x"
  have inr: "\<exists>a. m = Inr a \<and> f a = Inr y" if "andThen m f = Inr y"
    for m :: "error + 'a" and f :: "'a \<Rightarrow> error + Chunk \<times> nat" and y
    using that by (cases m) auto
  from item x obtain chunkSize where "idx' = align (idx + 8 + chunkSize)"
    unfolding ListChunk_ADTL_unpack_item_def
    by (fastforce dest!: inr)
  then have "idx < idx'"
    by (simp add: align_def)
  with lt show "((from, buffer, idx', chunks @ [chunk]), (from, buffer, idx, chunks))
      \<in> measure (\<lambda>(from, buffer, idx, chunks). byteLength from - idx)"
    by simp
qed

definition ListChunk_ADTL_unpack :: "DataView \<Rightarrow> nat \<Rightarrow> ArrayBuffer \<Rightarrow> error + Chunk" where
  "ListChunk_ADTL_unpack from t buffer =
     andThen (ListChunk_ADTL_unpack_loop from buffer 0 []) (\<lambda>chunks.
       Inr (ListChunk_ADTL chunks))"

definition ListChunk_chunkRegistry :: "nat \<rightharpoonup> ChunkStatic" where
  "ListChunk_chunkRegistry = [adtl \<mapsto> ListChunk_ADTL_unpack]"

definition ListChunk_unpack :: "DataView \<Rightarrow> nat \<Rightarrow> ArrayBuffer \<Rightarrow> error + Chunk" where
  "ListChunk_unpack from t buffer =
     andThen (getUint32 from 0 False buffer) (\<lambda>bodyTag.
     andThen (new_DataView buffer (byteOffset from + 4) (byteLength from - 4)) (\<lambda>bodyView.
     andThen (lookup ListChunk_chunkRegistry bodyTag bodyView bodyTag buffer) (\<lambda>body.
       Inr (ListChunk body))))"

definition DataChunk_unpack :: "DataView \<Rightarrow> nat \<Rightarrow> ArrayBuffer \<Rightarrow> error + Chunk" where
  "DataChunk_unpack from t buffer =
     andThen (new_Uint8Array buffer (byteOffset from) (byteLength from)) (\<lambda>d.
       Inr (DataChunk d))"

text \<open>
  \<^verbatim>\<open>DataChunk.reinterpret\<close> builds a typed array on the buffer of \<^verbatim>\<open>this.data\<close>. A typed
  array is a window of an \<^verbatim>\<open>ArrayBuffer\<close>: its class, the buffer, its byte offset and its
  number of elements. The buffer is named by a number, so that two windows of one buffer are
  seen to share it; a store gives the bytes each buffer holds at a moment.
  The platform refuses a window whose byte offset is not a multiple of the element size.
  Its other check, that the window ends inside the buffer, cannot fail in \<^verbatim>\<open>reinterpret\<close>: the
  window ends no later than \<^verbatim>\<open>this.data\<close>, which lies in the buffer.
  The function needs \<^verbatim>\<open>this.data.buffer\<close> and \<^verbatim>\<open>this.data.byteOffset\<close>, which the list of
  bytes does not hold, as its first two arguments; \<^verbatim>\<open>this.data\<close> itself is the
  \<^verbatim>\<open>Uint8Array\<close> on that buffer at that offset with the length of the list. The function
  returns its result beside the chunk as the call leaves it.
\<close>

datatype TypedArray =
    Uint8Array nat nat nat
  | Int16Array nat nat nat
  | Int32Array nat nat nat

fun buffer_of :: "TypedArray \<Rightarrow> nat" where
  "buffer_of (Uint8Array b off n) = b"
| "buffer_of (Int16Array b off n) = b"
| "buffer_of (Int32Array b off n) = b"

fun window_offset :: "TypedArray \<Rightarrow> nat" where
  "window_offset (Uint8Array b off n) = off"
| "window_offset (Int16Array b off n) = off"
| "window_offset (Int32Array b off n) = off"

fun element_count :: "TypedArray \<Rightarrow> nat" where
  "element_count (Uint8Array b off n) = n"
| "element_count (Int16Array b off n) = n"
| "element_count (Int32Array b off n) = n"

text \<open>\<^verbatim>\<open>BYTES_PER_ELEMENT\<close>\<close>

fun element_size :: "TypedArray \<Rightarrow> nat" where
  "element_size (Uint8Array b off n) = 1"
| "element_size (Int16Array b off n) = 2"
| "element_size (Int32Array b off n) = 4"

fun is_signed :: "TypedArray \<Rightarrow> bool" where
  "is_signed (Uint8Array b off n) = False"
| "is_signed (Int16Array b off n) = True"
| "is_signed (Int32Array b off n) = True"

definition bytes_covered :: "TypedArray \<Rightarrow> nat" where
  "bytes_covered ta = element_size ta * element_count ta"

type_synonym store = "nat \<Rightarrow> ArrayBuffer"

text \<open>The bytes that a typed array shows when the buffers hold what the store says.\<close>

definition window_bytes :: "store \<Rightarrow> TypedArray \<Rightarrow> byte list" where
  "window_bytes s ta = bytes_at (s (buffer_of ta)) (window_offset ta) (bytes_covered ta)"

definition new_Int16Array :: "nat \<Rightarrow> nat \<Rightarrow> nat \<Rightarrow> error + TypedArray" where
  "new_Int16Array b off n =
     (if off mod 2 \<noteq> 0 then Inl RangeError else Inr (Int16Array b off n))"

definition new_Int32Array :: "nat \<Rightarrow> nat \<Rightarrow> nat \<Rightarrow> error + TypedArray" where
  "new_Int32Array b off n =
     (if off mod 4 \<noteq> 0 then Inl RangeError else Inr (Int32Array b off n))"

fun reinterpret :: "nat \<Rightarrow> nat \<Rightarrow> Chunk \<Rightarrow> nat \<Rightarrow> (error + TypedArray) \<times> Chunk" where
  "reinterpret data_buffer data_byteOffset (DataChunk d) bits =
     (if bits = 8 then Inr (Uint8Array data_buffer data_byteOffset (length d))
      else if bits = 16 then new_Int16Array data_buffer data_byteOffset (length d div 2)
      else if bits = 32 then new_Int32Array data_buffer data_byteOffset (length d div 4)
      else Inl (Error_template ''Cannot reinterpret to bit depth '' bits ''!''),
      DataChunk d)"

section \<open>Wave\<close>

record Wave =
  chunks :: "Chunk list"
  cached_fmt :: "Chunk option"
  cached_data :: "Chunk option"

text \<open>
  The loop shared by \<^verbatim>\<open>getChunk\<close> and \<^verbatim>\<open>removeChunk\<close>:
  \<^verbatim>\<open>for (let i=0; i<this.chunks.length; i++) if (this.chunks[i].tag === tag) return this.chunks[i];\<close>
\<close>

fun first_tagged :: "Chunk list \<Rightarrow> nat \<Rightarrow> Chunk option" where
  "first_tagged [] t = None"
| "first_tagged (c # cs) t = (if tag c = t then Some c else first_tagged cs t)"

definition getChunk :: "Wave \<Rightarrow> nat \<Rightarrow> Chunk option" where
  "getChunk w t = first_tagged (chunks w) t"

text \<open>\<^verbatim>\<open>removeChunk\<close> returns its result beside the wave as the call leaves it.\<close>

definition removeChunk :: "Wave \<Rightarrow> nat \<Rightarrow> Chunk option \<times> Wave" where
  "removeChunk w t = (first_tagged (chunks w) t, w)"

definition addChunk :: "Wave \<Rightarrow> Chunk \<Rightarrow> Wave" where
  "addChunk w c = w\<lparr>chunks := chunks w @ [c]\<rparr>"

definition updateCache :: "Wave \<Rightarrow> Wave" where
  "updateCache w = w\<lparr>cached_fmt := getChunk w FMT, cached_data := getChunk w DATA\<rparr>"

definition new_Wave :: "Chunk list \<Rightarrow> Wave" where
  "new_Wave cs = updateCache \<lparr>chunks = cs, cached_fmt = None, cached_data = None\<rparr>"

subsection \<open>encode\<close>

text \<open>The first loop of \<^verbatim>\<open>encode\<close>, which adds up \<^verbatim>\<open>fileLength\<close>.\<close>

fun encode_length :: "Chunk list \<Rightarrow> nat \<Rightarrow> error + nat" where
  "encode_length [] fileLength = Inr fileLength"
| "encode_length (chunk # cs) fileLength =
     andThen (length_chunk chunk) (\<lambda>n. encode_length cs (align (fileLength + (8 + n))))"

text \<open>The second loop, which writes the chunks from the cursor \<open>idx\<close> on.\<close>

fun encode_chunks :: "Chunk list \<Rightarrow> DataView \<Rightarrow> nat \<Rightarrow> ArrayBuffer \<Rightarrow> error + ArrayBuffer" where
  "encode_chunks [] file idx buffer = Inr buffer"
| "encode_chunks (chunk # cs) file idx buffer =
     andThen (length_chunk chunk) (\<lambda>chunkLength.
     andThen (setUint32 file (idx + 0) (tag chunk) False buffer) (\<lambda>buffer.
     andThen (setUint32 file (idx + 4) chunkLength True buffer) (\<lambda>buffer.
     andThen (new_DataView buffer (idx + 8) chunkLength) (\<lambda>view.
     andThen (pack chunk view buffer) (\<lambda>buffer.
       encode_chunks cs file (align (idx + 8 + chunkLength)) buffer)))))"

definition encode :: "Wave \<Rightarrow> error + ArrayBuffer" where
  "encode w =
     andThen (encode_length (chunks w) 12) (\<lambda>fileLength.
       let buffer = replicate fileLength 0;
           file = \<lparr>byteOffset = 0, byteLength = fileLength\<rparr>
       in
     andThen (setUint32 file 0 RIFF False buffer) (\<lambda>buffer.
     andThen (setUint32 file 4 (fileLength - 8) True buffer) (\<lambda>buffer.
     andThen (setUint32 file 8 WAVE False buffer) (\<lambda>buffer.
       encode_chunks (chunks w) file 12 buffer))))"

subsection \<open>decode\<close>

definition Wave_chunkRegistry :: "nat \<rightharpoonup> ChunkStatic" where
  "Wave_chunkRegistry =
     [FMT \<mapsto> FormatChunk_unpack, DATA \<mapsto> DataChunk_unpack, CUE \<mapsto> CueChunk_unpack,
      SMPL \<mapsto> SampleChunk_unpack, LIST \<mapsto> ListChunk_unpack]"

text \<open>
  One pass of the \<^verbatim>\<open>while\<close> loop of \<^verbatim>\<open>decode\<close>: the chunk read at \<open>idx\<close> and the
  cursor after it.
\<close>

definition decode_chunk :: "DataView \<Rightarrow> ArrayBuffer \<Rightarrow> nat \<Rightarrow> error + Chunk \<times> nat" where
  "decode_chunk file buffer idx =
     andThen (getUint32 file (idx + 0) False buffer) (\<lambda>chunkTag.
     andThen (getUint32 file (idx + 4) True buffer) (\<lambda>chunkLength.
     andThen (new_DataView buffer (idx + 8) chunkLength) (\<lambda>chunkView.
     andThen (lookup Wave_chunkRegistry chunkTag chunkView chunkTag buffer) (\<lambda>chunk.
       Inr (chunk, align (idx + 8 + chunkLength))))))"

function decode_loop ::
  "DataView \<Rightarrow> ArrayBuffer \<Rightarrow> nat \<Rightarrow> nat \<Rightarrow> Chunk list \<Rightarrow> error + Chunk list" where
  "decode_loop file buffer fileLength idx cs =
     (if idx < fileLength then
        (case decode_chunk file buffer idx of
           Inl e \<Rightarrow> Inl e
         | Inr (chunk, idx') \<Rightarrow> decode_loop file buffer fileLength idx' (cs @ [chunk]))
      else Inr cs)"
  by pat_completeness auto
termination
proof (relation "measure (\<lambda>(file, buffer, fileLength, idx, cs). fileLength - idx)")
  show "wf (measure (\<lambda>(file, buffer, fileLength, idx, cs). fileLength - idx))"
    by simp
next
  fix "file" :: DataView and buffer :: ArrayBuffer and fileLength idx :: nat
    and cs :: "Chunk list" and x :: "Chunk \<times> nat" and chunk :: Chunk and idx' :: nat
  assume lt: "idx < fileLength"
    and item: "decode_chunk file buffer idx = Inr x"
    and x: "(chunk, idx') = x"
  have inr: "\<exists>a. m = Inr a \<and> f a = Inr y" if "andThen m f = Inr y"
    for m :: "error + 'a" and f :: "'a \<Rightarrow> error + Chunk \<times> nat" and y
    using that by (cases m) auto
  from item x obtain chunkLength where "idx' = align (idx + 8 + chunkLength)"
    unfolding decode_chunk_def
    by (fastforce dest!: inr)
  then have "idx < idx'"
    by (simp add: align_def)
  with lt show "((file, buffer, fileLength, idx', cs @ [chunk]), (file, buffer, fileLength, idx, cs))
      \<in> measure (\<lambda>(file, buffer, fileLength, idx, cs). fileLength - idx)"
    by simp
qed

definition decode :: "ArrayBuffer \<Rightarrow> error + Wave" where
  "decode buffer =
     (let file = \<lparr>byteOffset = 0, byteLength = length buffer\<rparr> in
      andThen (getUint32 file 0 False buffer) (\<lambda>magic.
        if magic \<noteq> RIFF then Inl (Error ''Invalid magic string (RIFF)! Is this a .wav file?'')
        else
      andThen (getUint32 file 8 False buffer) (\<lambda>magic.
        if magic \<noteq> WAVE then Inl (Error ''Invalid magic string (WAVE)! Is this a .wav file?'')
        else
      andThen (getUint32 file 4 True buffer) (\<lambda>fileLength.
        if fileLength + 8 > length buffer
        then Inl (Error ''Invalid file length! (Bigger than buffer.)'')
        else
      andThen (decode_loop file buffer fileLength 12 []) (\<lambda>cs. Inr (new_Wave cs))))))"

section \<open>Evaluation and arithmetic of bytes\<close>

text \<open>
  The equations of the loops are unconditional and recursive; they are unfolded only
  where a proof asks for them.
\<close>

declare ListChunk_ADTL_unpack_loop.simps [simp del]
declare decode_loop.simps [simp del]

lemmas loop_simps = ListChunk_ADTL_unpack_loop.simps decode_loop.simps

lemmas view_defs = new_DataView_def bytes_at_def write_bytes_def u16_bytes_def u32_bytes_def
  set_bytes_def get_bytes_def setUint16_def setUint32_def getUint16_def getUint32_def
  new_Uint8Array_def Uint8Array_set_def align_def

lemmas tag_defs = RIFF_def WAVE_def FMT_def DATA_def CUE_def SMPL_def LIST_def adtl_def
  labl_def INFO_def

lemmas pack_defs = UnknownChunk_pack_def FormatChunk_pack_def six_pack_def CueChunk_pack_def
  SampleChunk_pack_def ListChunk_ADTL_LABL_pack_def DataChunk_pack_def

lemmas unpack_defs = UnknownChunk_unpack_def FormatChunk_unpack_def six_unpack_def
  Cue_unpack_def SampleLoop_unpack_def CueChunk_unpack_def SampleChunk_unpack_def
  ListChunk_ADTL_LABL_unpack_def lookup_def ListChunk_ADTL_chunkRegistry_def
  ListChunk_ADTL_unpack_item_def ListChunk_ADTL_unpack_def ListChunk_chunkRegistry_def
  ListChunk_unpack_def DataChunk_unpack_def Wave_chunkRegistry_def decode_chunk_def

lemmas wave_defs = getChunk_def updateCache_def new_Wave_def encode_def decode_def

text \<open>
  With these congruence rules the simplifier evaluates the first argument of a step
  before it enters the continuation, as the program does.
\<close>

lemma andThen_weak_cong: "m = m' \<Longrightarrow> andThen m f = andThen m' f"
  by simp

lemmas eval_congs = andThen_weak_cong sum.case_cong_weak option.case_cong_weak

lemma replicate_numeral: "replicate (numeral k) x = x # replicate (pred_numeral k) x"
  by (simp add: numeral_eq_Suc)

lemma andThen_Inr_iff: "andThen m f = Inr y \<longleftrightarrow> (\<exists>x. m = Inr x \<and> f x = Inr y)"
  by (cases m) auto

lemma andThen_Inl_iff: "andThen m f = Inl e \<longleftrightarrow> m = Inl e \<or> (\<exists>x. m = Inr x \<and> f x = Inl e)"
  by (cases m) auto

lemma byte_256: "(256 :: byte) = 0"
  by simp

lemma unat_byte_less: "unat (b :: byte) < 256"
  using unsigned_less [of b, where 'a = nat] by simp

lemma of_nat_byte_split: "(of_nat (unat (a :: byte) + 256 * k) :: byte) = a"
  by (simp add: byte_256)

lemma le_value_less: "le_value bs < 256 ^ length bs"
proof (induction bs)
  case Nil
  show ?case by simp
next
  case (Cons b bs)
  have "unat b + 256 * le_value bs < 256 + 256 * le_value bs"
    using unat_byte_less [of b] by simp
  also have "\<dots> = 256 * (le_value bs + 1)" by simp
  also have "\<dots> \<le> 256 * 256 ^ length bs"
    using Cons.IH by (intro mult_le_mono2) simp
  finally show ?case by simp
qed

lemma length4E: "length bs = 4 \<Longrightarrow> \<exists>a b c d. bs = [a, b, c, d]"
  by (cases bs; simp; rename_tac x xs; case_tac xs; simp; rename_tac y ys; case_tac ys; simp; rename_tac z zs; case_tac zs; simp)

lemma length2E: "length bs = 2 \<Longrightarrow> \<exists>a b. bs = [a, b]"
  by (cases bs; simp; rename_tac x xs; case_tac xs; simp)

lemma u32_bytes_le_value: 
  assumes len: "length bs = 4" shows "u32_bytes (le_value bs) = bs"
proof -
  from len obtain a b c d where bs: "bs = [a, b, c, d]"
    using length4E by blast
  have small: "le_value bs < 4294967296"
    using le_value_less [of bs] len by simp
  have d1: "le_value bs div 256 = unat b + 256 * (unat c + 256 * unat d)"
    unfolding bs using unat_byte_less [of a] by simp
  have d2: "le_value bs div 65536 = unat c + 256 * unat d"
    using unat_byte_less [of a] unat_byte_less [of b] unfolding bs by simp
  have d3: "le_value bs div 16777216 = unat d"
    using unat_byte_less [of a] unat_byte_less [of b]  unat_byte_less [of c] unfolding bs by simp
  have b0: "of_nat (le_value bs) = a"
    unfolding bs le_value.simps by (rule of_nat_byte_split)
  have b1: "of_nat (unat b + 256 * (unat c + 256 * unat d)) = b"
    by (rule of_nat_byte_split)
  have b2: "of_nat (unat c + 256 * unat d) = c"
    by (rule of_nat_byte_split)
  have b3: "of_nat (unat d) = d"
    by simp
  show ?thesis
    unfolding u32_bytes_def Let_def mod_less [OF small] d1 d2 d3 b0 b1 b2 b3 by (simp add: bs)
qed

lemma u16_bytes_le_value: 
  assumes len: "length bs = 2" shows "u16_bytes (le_value bs) = bs"
proof -
  from len obtain a b where bs: "bs = [a, b]"
    using length2E by blast
  have small: "le_value bs < 65536"
    using le_value_less [of bs] len by simp
  have d1: "le_value bs div 256 = unat b"
    unfolding bs using unat_byte_less [of a] by simp
  have b0: "of_nat (le_value bs) = a"
    unfolding bs le_value.simps by (rule of_nat_byte_split)
  have b1: "of_nat (unat b) = b"
    by simp
  show ?thesis
    unfolding u16_bytes_def Let_def mod_less [OF small] d1 b0 b1 by (simp add: bs)
qed

lemma unat_of_nat_byte: "unat (of_nat n :: byte) = n mod 256"
  by (simp add: unat_of_nat)

lemma le_value_u32_bytes: "le_value (u32_bytes v) = v mod 4294967296"
proof -
  define w where "w = v mod 4294967296"
  define q1 where "q1 = w div 256"
  define q2 where "q2 = q1 div 256"
  define q3 where "q3 = q2 div 256"
  have w: "w < 4294967296" by (simp add: w_def)
  have d2: "w div 65536 = q2"
    by (simp add: q2_def q1_def div_mult2_eq)
  have d3: "w div 16777216 = q3"
    by (simp add: q3_def q2_def q1_def div_mult2_eq)
  have "q3 < 256"
    unfolding d3 [symmetric] using w by simp
  then have e3: "q3 mod 256 = q3" by simp
  have e2: "q2 mod 256 + 256 * q3 = q2" by (simp add: q3_def)
  have e1: "q1 mod 256 + 256 * q2 = q1" by (simp add: q2_def)
  have e0: "w mod 256 + 256 * q1 = w" by (simp add: q1_def)
  have "le_value (u32_bytes v) =
      w mod 256 + 256 * (q1 mod 256 + 256 * (q2 mod 256 + 256 * (q3 mod 256)))"
    unfolding u32_bytes_def Let_def w_def [symmetric] d2 d3 q1_def [symmetric]
    by (simp only: le_value.simps unat_of_nat_byte) simp
  also have "\<dots> = w"
    by (simp only: e3 e2 e1 e0)
  finally show ?thesis by (simp add: w_def)
qed

lemma le_value_u16_bytes: "le_value (u16_bytes v) = v mod 65536"
proof -
  define w where "w = v mod 65536"
  define q1 where "q1 = w div 256"
  have w: "w < 65536" by (simp add: w_def)
  have "q1 < 256"
    unfolding q1_def using w by simp
  then have e1: "q1 mod 256 = q1" by simp
  have e0: "w mod 256 + 256 * q1 = w" by (simp add: q1_def)
  have "le_value (u16_bytes v) = w mod 256 + 256 * (q1 mod 256)"
    unfolding u16_bytes_def Let_def w_def [symmetric] q1_def [symmetric]
    by (simp only: le_value.simps unat_of_nat_byte) simp
  also have "\<dots> = w"
    by (simp only: e1 e0)
  finally show ?thesis by (simp add: w_def)
qed


section \<open>removeChunk\<close>

lemma first_tagged_find: "first_tagged cs t = find (\<lambda>c. tag c = t) cs"
  by (induction cs) auto

text \<open>
  C8: for every wave and every tag, \<^verbatim>\<open>removeChunk\<close> returns the first chunk of the list
  whose tag equals the given one (nothing when there is none) and leaves the wave as it
  was: the list of chunks keeps its length, its elements and their order.
\<close>

theorem removeChunk_returns_first_and_keeps_wave:
  "removeChunk w t = (find (\<lambda>c. tag c = t) (chunks w), w)"
  by (simp add: removeChunk_def first_tagged_find)

section \<open>The header checks of decode\<close>

lemma be_bytes_of_value:
  assumes "length bs = 4" and "le_value (rev bs) = v"
  shows "bs = rev (u32_bytes v)"
proof -
  have "u32_bytes (le_value (rev bs)) = rev bs"
    using assms(1) by (intro u32_bytes_le_value) simp
  then show ?thesis
    using assms(2) by (metis rev_rev_ident)
qed

lemma RIFF_bytes: "rev (u32_bytes RIFF) = [0x52, 0x49, 0x46, 0x46]"
  by (simp add: u32_bytes_def RIFF_def)

lemma WAVE_bytes: "rev (u32_bytes WAVE) = [0x57, 0x41, 0x56, 0x45]"
  by (simp add: u32_bytes_def WAVE_def)

lemma length_bytes_at: "pos + n \<le> length buffer \<Longrightarrow> length (bytes_at buffer pos n) = n"
  by (simp add: bytes_at_def)

lemma getUint32_whole:
  "getUint32 \<lparr>byteOffset = 0, byteLength = length buffer\<rparr> idx le buffer =
     (if idx + 4 > length buffer then Inl RangeError
      else Inr (le_value (if le then bytes_at buffer idx 4 else rev (bytes_at buffer idx 4))))"
  by (simp add: getUint32_def get_bytes_def)

text \<open>
  C9: \<^verbatim>\<open>decode\<close> fails when bytes 0 to 3 of the buffer are not \<^verbatim>\<open>RIFF\<close>, when bytes
  8 to 11 are not \<^verbatim>\<open>WAVE\<close>, or when the little-endian length at offset 4 plus 8 exceeds the
  length of the buffer. The result is then an error, which carries no chunk.
\<close>

theorem decode_rejects_bad_header:
  assumes "bytes_at buffer 0 4 \<noteq> [0x52, 0x49, 0x46, 0x46]
         \<or> bytes_at buffer 8 4 \<noteq> [0x57, 0x41, 0x56, 0x45]
         \<or> le_value (bytes_at buffer 4 4) + 8 > length buffer"
  shows "isl (decode buffer)"
proof (cases "length buffer < 12")
  case True
  then show ?thesis
    by (simp add: decode_def getUint32_whole Let_def)
next
  case False
  then have len: "12 \<le> length buffer" by simp
  have riff: "le_value (rev (bytes_at buffer 0 4)) = RIFF \<Longrightarrow> bytes_at buffer 0 4 = [0x52, 0x49, 0x46, 0x46]"
    using be_bytes_of_value [of "bytes_at buffer 0 4" RIFF] len
    by (simp add: length_bytes_at RIFF_bytes)
  have wave: "le_value (rev (bytes_at buffer 8 4)) = WAVE \<Longrightarrow> bytes_at buffer 8 4 = [0x57, 0x41, 0x56, 0x45]"
    using be_bytes_of_value [of "bytes_at buffer 8 4" WAVE] len
    by (simp add: length_bytes_at WAVE_bytes)
  show ?thesis
  proof (cases "le_value (rev (bytes_at buffer 0 4)) = RIFF")
    case False
    then show ?thesis
      using len by (simp add: decode_def getUint32_whole Let_def)
  next
    case r: True
    show ?thesis
    proof (cases "le_value (rev (bytes_at buffer 8 4)) = WAVE")
      case False
      then show ?thesis
        using len r by (simp add: decode_def getUint32_whole Let_def)
    next
      case w: True
      from assms riff [OF r] wave [OF w]
      have "le_value (bytes_at buffer 4 4) + 8 > length buffer"
        by simp
      then show ?thesis
        using len r w by (simp add: decode_def getUint32_whole Let_def)
    qed
  qed
qed

theorem decode_rejects_bad_header_witness:
  "isl (decode [0x52, 0x49, 0x46, 0x58, 4, 0, 0, 0, 0x57, 0x41, 0x56, 0x45])
   \<and> isl (decode [0x52, 0x49, 0x46, 0x46, 4, 0, 0, 0, 0x57, 0x41, 0x56, 0x46])
   \<and> isl (decode [0x52, 0x49, 0x46, 0x46, 5, 0, 0, 0, 0x57, 0x41, 0x56, 0x45])"
proof -
  have a: "bytes_at [0x52, 0x49, 0x46, 0x58, 4, 0, 0, 0, 0x57, 0x41, 0x56, 0x45] 0 4 \<noteq> [0x52, 0x49, 0x46, 0x46 :: byte]"
    by (simp add: bytes_at_def)
  have b: "bytes_at [0x52, 0x49, 0x46, 0x46, 4, 0, 0, 0, 0x57, 0x41, 0x56, 0x46] 8 4 \<noteq> [0x57, 0x41, 0x56, 0x45 :: byte]"
    by (simp add: bytes_at_def)
  have c: "le_value (bytes_at [0x52, 0x49, 0x46, 0x46, 5, 0, 0, 0, 0x57, 0x41, 0x56, 0x45 :: byte] 4 4) + 8
      > length [0x52, 0x49, 0x46, 0x46, 5, 0, 0, 0, 0x57, 0x41, 0x56, 0x45 :: byte]"
    by (simp add: bytes_at_def)
  show ?thesis
    using decode_rejects_bad_header [OF disjI1, OF a]
      decode_rejects_bad_header [OF disjI2, OF disjI1, OF b]
      decode_rejects_bad_header [OF disjI2, OF disjI2, OF c]
    by simp
qed


section \<open>DataChunk.reinterpret\<close>

text \<open>
  C10, as stated, fails in three ways. A payload of three bytes reinterpreted at 16 bits is
  a view of one element, which covers two bytes and not three. At 8 bits the result is the
  \<^verbatim>\<open>Uint8Array\<close> of the payload itself, whose elements are unsigned. And a payload at byte
  offset 46 of its buffer, where a data chunk lies in a file after a format chunk of 18
  bytes, cannot be seen as 32-bit integers without a copy: the call throws a RangeError.
\<close>

theorem reinterpret_signed_same_length_counterexample:
  "fst (reinterpret 0 0 (DataChunk [1, 2, 3]) 16) = Inr (Int16Array 0 0 1)
   \<and> bytes_covered (Int16Array 0 0 1) \<noteq> length [1, 2, 3 :: byte]
   \<and> fst (reinterpret 0 0 (DataChunk [255]) 8) = Inr (Uint8Array 0 0 1)
   \<and> \<not> is_signed (Uint8Array 0 0 1)
   \<and> fst (reinterpret 0 46 (DataChunk [1, 2, 3, 4]) 32) = Inl RangeError"
  by (simp add: new_Int16Array_def new_Int32Array_def bytes_covered_def)

text \<open>
  C10, amended. \<^verbatim>\<open>reinterpret(8)\<close> returns the \<^verbatim>\<open>Uint8Array\<close> of the payload itself: unsigned
  bytes, all of them. \<^verbatim>\<open>reinterpret(16)\<close> and \<^verbatim>\<open>reinterpret(32)\<close> return an \<^verbatim>\<open>Int16Array\<close> and
  an \<^verbatim>\<open>Int32Array\<close> on the buffer of the payload, at the byte offset of the payload, with the
  byte length of the payload divided by 2 and by 4, rounded down, as their number of
  elements, when that byte offset is a multiple of 2 and of 4; they fail with a RangeError
  when it is not. Every other bit depth fails with the error of the source.
  No call changes the chunk. Whatever view a call returns is a window of the buffer of the
  payload that starts where the payload starts, has elements of the width asked for, is
  signed unless the width is 8, leaves out fewer bytes of the payload than one element has,
  and shows, whatever the buffers hold, the bytes that the payload shows there.
\<close>

theorem reinterpret_views:
  "snd (reinterpret b off (DataChunk d) bits) = DataChunk d
   \<and> (bits = 8 \<longrightarrow>
        fst (reinterpret b off (DataChunk d) bits) = Inr (Uint8Array b off (length d)))
   \<and> (bits = 16 \<and> 2 dvd off \<longrightarrow>
        fst (reinterpret b off (DataChunk d) bits) = Inr (Int16Array b off (length d div 2)))
   \<and> (bits = 32 \<and> 4 dvd off \<longrightarrow>
        fst (reinterpret b off (DataChunk d) bits) = Inr (Int32Array b off (length d div 4)))
   \<and> (bits = 16 \<and> \<not> 2 dvd off \<or> bits = 32 \<and> \<not> 4 dvd off \<longrightarrow>
        fst (reinterpret b off (DataChunk d) bits) = Inl RangeError)
   \<and> (bits \<noteq> 8 \<and> bits \<noteq> 16 \<and> bits \<noteq> 32 \<longrightarrow>
        fst (reinterpret b off (DataChunk d) bits)
          = Inl (Error_template ''Cannot reinterpret to bit depth '' bits ''!''))
   \<and> (\<forall>ta. fst (reinterpret b off (DataChunk d) bits) = Inr ta \<longrightarrow>
          buffer_of ta = b
        \<and> window_offset ta = off
        \<and> 8 * element_size ta = bits
        \<and> element_count ta = length d div element_size ta
        \<and> (is_signed ta \<longleftrightarrow> bits \<noteq> 8)
        \<and> bytes_covered ta \<le> length d
        \<and> length d - bytes_covered ta < element_size ta
        \<and> (\<forall>s. window_bytes s ta
               = take (bytes_covered ta) (window_bytes s (Uint8Array b off (length d)))))"
proof -
  have m2: "2 * (length d div 2) \<le> length d" "length d - 2 * (length d div 2) < 2"
    by presburger+
  have m4: "4 * (length d div 4) \<le> length d" "length d - 4 * (length d div 4) < 4"
    by presburger+
  show ?thesis
    using m2 m4
    by (auto simp: new_Int16Array_def new_Int32Array_def bytes_covered_def window_bytes_def
          bytes_at_def min_def)
qed

theorem reinterpret_views_witness:
  "fst (reinterpret 7 4 (DataChunk [1, 2, 3, 4, 5]) 8) = Inr (Uint8Array 7 4 5)
   \<and> fst (reinterpret 7 4 (DataChunk [1, 2, 3, 4, 5]) 16) = Inr (Int16Array 7 4 2)
   \<and> fst (reinterpret 7 4 (DataChunk [1, 2, 3, 4, 5]) 32) = Inr (Int32Array 7 4 1)
   \<and> fst (reinterpret 7 6 (DataChunk [1, 2, 3, 4, 5]) 32) = Inl RangeError
   \<and> fst (reinterpret 7 4 (DataChunk [1, 2, 3, 4, 5]) 24)
        = Inl (Error_template ''Cannot reinterpret to bit depth '' 24 ''!'')
   \<and> snd (reinterpret 7 4 (DataChunk [1, 2, 3, 4, 5]) 24) = DataChunk [1, 2, 3, 4, 5]
   \<and> element_count (Int32Array 7 4 1) = length [1, 2, 3, 4, 5 :: byte] div 4
   \<and> window_bytes (\<lambda>n. [9, 9, 9, 9, 1, 2, 3, 4, 5]) (Int32Array 7 4 1) = [1, 2, 3, 4]"
proof -
  have r32: "fst (reinterpret 7 4 (DataChunk [1, 2, 3, 4, 5]) 32) = Inr (Int32Array 7 4 1)"
    using reinterpret_views [of 7 4 "[1, 2, 3, 4, 5]" 32] by simp
  have v: "window_bytes (\<lambda>n. [9, 9, 9, 9, 1, 2, 3, 4, 5]) (Int32Array 7 4 1) = [1, 2, 3, 4]"
    by (simp add: window_bytes_def bytes_covered_def bytes_at_def)
  have r8: "fst (reinterpret 7 4 (DataChunk [1, 2, 3, 4, 5]) 8) = Inr (Uint8Array 7 4 5)"
    using reinterpret_views [of 7 4 "[1, 2, 3, 4, 5]" 8] by simp
  have r16: "fst (reinterpret 7 4 (DataChunk [1, 2, 3, 4, 5]) 16) = Inr (Int16Array 7 4 2)"
    using reinterpret_views [of 7 4 "[1, 2, 3, 4, 5]" 16] by simp
  have rm: "fst (reinterpret 7 6 (DataChunk [1, 2, 3, 4, 5]) 32) = Inl RangeError"
    using reinterpret_views [of 7 6 "[1, 2, 3, 4, 5]" 32] by simp
  have r24: "fst (reinterpret 7 4 (DataChunk [1, 2, 3, 4, 5]) 24)
        = Inl (Error_template ''Cannot reinterpret to bit depth '' 24 ''!'')"
    using reinterpret_views [of 7 4 "[1, 2, 3, 4, 5]" 24] by simp
  have s24: "snd (reinterpret 7 4 (DataChunk [1, 2, 3, 4, 5]) 24) = DataChunk [1, 2, 3, 4, 5]"
    using reinterpret_views [of 7 4 "[1, 2, 3, 4, 5]" 24] by simp
  have c: "element_count (Int32Array 7 4 1) = length [1, 2, 3, 4, 5 :: byte] div 4"
    using reinterpret_views [of 7 4 "[1, 2, 3, 4, 5]" 32] r32 by simp
  from r8 r16 r32 rm r24 s24 c v show ?thesis
    by blast
qed


section \<open>FormatChunk\<close>

lemma getUint16_eq:
  "getUint16 view idx le buffer =
     (if idx + 2 > byteLength view then Inl RangeError
      else Inr (le_value (if le then bytes_at buffer (byteOffset view + idx) 2
                          else rev (bytes_at buffer (byteOffset view + idx) 2))))"
  by (simp add: getUint16_def get_bytes_def)

lemma getUint32_eq:
  "getUint32 view idx le buffer =
     (if idx + 4 > byteLength view then Inl RangeError
      else Inr (le_value (if le then bytes_at buffer (byteOffset view + idx) 4
                          else rev (bytes_at buffer (byteOffset view + idx) 4))))"
  by (simp add: getUint32_def get_bytes_def)

text \<open>
  C6: a \<^verbatim>\<open>FormatChunk\<close> with compression code at most 1 has \<^verbatim>\<open>length()\<close> 16, and one
  with a greater code and extension bytes of length \<open>N\<close> has \<^verbatim>\<open>length()\<close> \<open>18 + N\<close>.
  Decoding a body of at least 16 bytes whose compression code is at most 1 succeeds with no
  extension bytes; decoding a body whose code is greater reads the 16-bit length at offset
  16 and takes that many bytes from offset 18 on as the extension. No decoded chunk with a
  code of at most 1 has extension bytes.
\<close>

theorem FormatChunk_length_and_extension:
  "(cc \<le> 1 \<longrightarrow> length_chunk (FormatChunk cc ch sr av ba sb ex) = Inr 16)
   \<and> (cc > 1 \<longrightarrow> length_chunk (FormatChunk cc ch sr av ba sb (Some e)) = Inr (18 + length e))
   \<and> (getUint16 from 0 True buffer = Inr c0 \<and> c0 \<le> 1 \<and> 16 \<le> byteLength from \<longrightarrow>
        (\<exists>c. FormatChunk_unpack from t buffer = Inr c
           \<and> compressionCode c = c0 \<and> extraFormatBytes c = None))
   \<and> (getUint16 from 0 True buffer = Inr c0 \<and> c0 > 1
        \<and> getUint16 from 16 True buffer = Inr n \<and> byteOffset from + 18 + n \<le> length buffer \<longrightarrow>
        (\<exists>c. FormatChunk_unpack from t buffer = Inr c
           \<and> compressionCode c = c0
           \<and> extraFormatBytes c = Some (bytes_at buffer (byteOffset from + 18) n)
           \<and> length (bytes_at buffer (byteOffset from + 18) n) = n))
   \<and> (FormatChunk_unpack from t buffer = Inr c \<and> compressionCode c \<le> 1 \<longrightarrow>
        extraFormatBytes c = None)"
proof (intro conjI impI)
  assume "cc \<le> 1"
  then show "length_chunk (FormatChunk cc ch sr av ba sb ex) = Inr 16"
    by simp
next
  assume "cc > 1"
  then show "length_chunk (FormatChunk cc ch sr av ba sb (Some e)) = Inr (18 + length e)"
    by simp
next
  assume "getUint16 from 0 True buffer = Inr c0 \<and> c0 \<le> 1 \<and> 16 \<le> byteLength from"
  then show "\<exists>c. FormatChunk_unpack from t buffer = Inr c
           \<and> compressionCode c = c0 \<and> extraFormatBytes c = None"
    by (simp add: FormatChunk_unpack_def) (simp add: getUint16_eq getUint32_eq)
next
  assume a: "getUint16 from 0 True buffer = Inr c0 \<and> c0 > 1
        \<and> getUint16 from 16 True buffer = Inr n \<and> byteOffset from + 18 + n \<le> length buffer"
  then have "18 \<le> byteLength from"
    by (auto simp: getUint16_eq split: if_splits)
  with a show "\<exists>c. FormatChunk_unpack from t buffer = Inr c
           \<and> compressionCode c = c0
           \<and> extraFormatBytes c = Some (bytes_at buffer (byteOffset from + 18) n)
           \<and> length (bytes_at buffer (byteOffset from + 18) n) = n"
    by (simp add: FormatChunk_unpack_def new_Uint8Array_def)
       (auto simp: getUint16_eq getUint32_eq bytes_at_def)
next
  assume "FormatChunk_unpack from t buffer = Inr c \<and> compressionCode c \<le> 1"
  then show "extraFormatBytes c = None"
    unfolding FormatChunk_unpack_def
    by (auto simp: andThen_Inr_iff split: if_splits)
qed

theorem FormatChunk_length_and_extension_witness:
  "length_chunk (FormatChunk 1 2 44100 176400 4 16 None) = Inr 16
   \<and> length_chunk (FormatChunk 2 2 44100 176400 4 16 (Some [0xab, 0xcd])) = Inr 20
   \<and> FormatChunk_unpack \<lparr>byteOffset = 4, byteLength = 16\<rparr> FMT
        [0xFF, 0xFF, 0xFF, 0xFF, 0x01, 0x00, 0x02, 0x00, 0x44, 0xac, 0x00, 0x00, 0x10, 0xb1,
         0x02, 0x00, 0x04, 0x00, 0x10, 0x00]
       = Inr (FormatChunk 1 2 44100 176400 4 16 None)
   \<and> FormatChunk_unpack \<lparr>byteOffset = 4, byteLength = 20\<rparr> FMT
        [0xFF, 0xFF, 0xFF, 0xFF, 0x02, 0x00, 0x02, 0x00, 0x44, 0xac, 0x00, 0x00, 0x10, 0xb1,
         0x02, 0x00, 0x04, 0x00, 0x10, 0x00, 0x02, 0x00, 0xab, 0xcd]
       = Inr (FormatChunk 2 2 44100 176400 4 16 (Some [0xab, 0xcd]))"
  using FormatChunk_length_and_extension [of 1 2 44100 176400 4 16 None "[]"
      "\<lparr>byteOffset = 4, byteLength = 16\<rparr>"
      "[0xFF, 0xFF, 0xFF, 0xFF, 0x01, 0x00, 0x02, 0x00, 0x44, 0xac, 0x00, 0x00, 0x10, 0xb1,
         0x02, 0x00, 0x04, 0x00, 0x10, 0x00]" 1 FMT 0 "FormatChunk 1 2 44100 176400 4 16 None"]
    FormatChunk_length_and_extension [of 2 2 44100 176400 4 16 None "[0xab, 0xcd]"
      "\<lparr>byteOffset = 4, byteLength = 20\<rparr>"
      "[0xFF, 0xFF, 0xFF, 0xFF, 0x02, 0x00, 0x02, 0x00, 0x44, 0xac, 0x00, 0x00, 0x10, 0xb1,
         0x02, 0x00, 0x04, 0x00, 0x10, 0x00, 0x02, 0x00, 0xab, 0xcd]" 2 FMT 2
      "FormatChunk 2 2 44100 176400 4 16 (Some [0xab, 0xcd])"]
  by (simp add: view_defs unpack_defs cong: eval_congs)


section \<open>Unregistered tags\<close>

lemma length_write_bytes:
  "pos + length bs \<le> length buffer \<Longrightarrow> length (write_bytes buffer pos bs) = length buffer"
  by (simp add: write_bytes_def)

lemma bytes_at_write_bytes_same:
  "pos + length bs \<le> length buffer \<Longrightarrow> bytes_at (write_bytes buffer pos bs) pos (length bs) = bs"
  by (simp add: write_bytes_def bytes_at_def)

lemma Wave_chunkRegistry_None_iff:
  "Wave_chunkRegistry t = None \<longleftrightarrow> t \<notin> {FMT, DATA, CUE, SMPL, LIST}"
  by (auto simp: Wave_chunkRegistry_def)

lemma ListChunk_chunkRegistry_None_iff: "ListChunk_chunkRegistry t = None \<longleftrightarrow> t \<noteq> adtl"
  by (auto simp: ListChunk_chunkRegistry_def)

lemma ListChunk_ADTL_chunkRegistry_None_iff: "ListChunk_ADTL_chunkRegistry t = None \<longleftrightarrow> t \<noteq> labl"
  by (auto simp: ListChunk_ADTL_chunkRegistry_def)

text \<open>
  Where the tag read is in none of the three registries, one pass of the top-level loop,
  \<^verbatim>\<open>ListChunk.unpack\<close> and one pass of the loop of \<^verbatim>\<open>ListChunk_ADTL.unpack\<close> each yield an
  \<^verbatim>\<open>UnknownChunk\<close> that holds this tag and the bytes of the body. Such a chunk reports its
  tag and the number of its bytes, and \<^verbatim>\<open>pack\<close> writes exactly these bytes at the start of
  its view; the buffer keeps its length.
\<close>

lemma unknown_tags_keep_their_bytes:
  "(Wave_chunkRegistry t = None \<and> getUint32 file idx False buffer = Inr t
      \<and> getUint32 file (idx + 4) True buffer = Inr n \<and> idx + 8 + n \<le> length buffer \<longrightarrow>
        decode_chunk file buffer idx
          = Inr (UnknownChunk t (bytes_at buffer (idx + 8) n), align (idx + 8 + n)))
   \<and> (ListChunk_chunkRegistry t = None \<and> getUint32 from 0 False buffer = Inr t
      \<and> byteOffset from + byteLength from \<le> length buffer \<longrightarrow>
        ListChunk_unpack from LIST buffer
          = Inr (ListChunk (UnknownChunk t
                   (bytes_at buffer (byteOffset from + 4) (byteLength from - 4)))))
   \<and> (ListChunk_ADTL_chunkRegistry t = None \<and> getUint32 from idx False buffer = Inr t
      \<and> getUint32 from (idx + 4) True buffer = Inr n
      \<and> byteOffset from + idx + 8 + n \<le> length buffer \<longrightarrow>
        ListChunk_ADTL_unpack_item from buffer idx
          = Inr (UnknownChunk t (bytes_at buffer (byteOffset from + idx + 8) n),
                 align (idx + 8 + n)))
   \<and> tag (UnknownChunk t d) = t
   \<and> length_chunk (UnknownChunk t d) = Inr (length d)
   \<and> (byteLength into = length d \<and> byteOffset into + byteLength into \<le> length out \<longrightarrow>
        pack (UnknownChunk t d) into out = Inr (write_bytes out (byteOffset into) d)
        \<and> bytes_at (write_bytes out (byteOffset into) d) (byteOffset into) (length d) = d
        \<and> length (write_bytes out (byteOffset into) d) = length out)"
proof (intro conjI impI)
  assume "Wave_chunkRegistry t = None \<and> getUint32 file idx False buffer = Inr t
      \<and> getUint32 file (idx + 4) True buffer = Inr n \<and> idx + 8 + n \<le> length buffer"
  then show "decode_chunk file buffer idx
          = Inr (UnknownChunk t (bytes_at buffer (idx + 8) n), align (idx + 8 + n))"
    by (simp add: decode_chunk_def lookup_def new_DataView_def UnknownChunk_unpack_def
          new_Uint8Array_def)
next
  assume a: "ListChunk_chunkRegistry t = None \<and> getUint32 from 0 False buffer = Inr t
      \<and> byteOffset from + byteLength from \<le> length buffer"
  then have "4 \<le> byteLength from"
    by (auto simp: getUint32_eq split: if_splits)
  with a show "ListChunk_unpack from LIST buffer
          = Inr (ListChunk (UnknownChunk t
                   (bytes_at buffer (byteOffset from + 4) (byteLength from - 4))))"
    by (simp add: ListChunk_unpack_def lookup_def new_DataView_def UnknownChunk_unpack_def
          new_Uint8Array_def)
next
  assume "ListChunk_ADTL_chunkRegistry t = None \<and> getUint32 from idx False buffer = Inr t
      \<and> getUint32 from (idx + 4) True buffer = Inr n
      \<and> byteOffset from + idx + 8 + n \<le> length buffer"
  then show "ListChunk_ADTL_unpack_item from buffer idx
          = Inr (UnknownChunk t (bytes_at buffer (byteOffset from + idx + 8) n),
                 align (idx + 8 + n))"
    by (simp add: ListChunk_ADTL_unpack_item_def lookup_def new_DataView_def
          UnknownChunk_unpack_def new_Uint8Array_def add.assoc)
next
  show "tag (UnknownChunk t d) = t"
    by simp
next
  show "length_chunk (UnknownChunk t d) = Inr (length d)"
    by simp
next
  assume "byteLength into = length d \<and> byteOffset into + byteLength into \<le> length out"
  then show "pack (UnknownChunk t d) into out = Inr (write_bytes out (byteOffset into) d)"
    by (simp add: UnknownChunk_pack_def Uint8Array_set_def)
next
  assume "byteLength into = length d \<and> byteOffset into + byteLength into \<le> length out"
  then show "bytes_at (write_bytes out (byteOffset into) d) (byteOffset into) (length d) = d"
    by (simp add: bytes_at_write_bytes_same)
next
  assume "byteLength into = length d \<and> byteOffset into + byteLength into \<le> length out"
  then show "length (write_bytes out (byteOffset into) d) = length out"
    by (simp add: length_write_bytes)
qed


lemma unknown_tags_keep_their_bytes_example:
  "decode_chunk \<lparr>byteOffset = 0, byteLength = 24\<rparr>
      [0x52, 0x49, 0x46, 0x46, 16, 0, 0, 0, 0x57, 0x41, 0x56, 0x45,
       0x6A, 0x75, 0x6E, 0x6B, 3, 0, 0, 0, 1, 2, 3, 0] 12
     = Inr (UnknownChunk 0x6A756E6B [1, 2, 3], 24)
   \<and> ListChunk_unpack \<lparr>byteOffset = 0, byteLength = 7\<rparr> LIST [0x49, 0x4E, 0x46, 0x4F, 9, 8, 7]
     = Inr (ListChunk (UnknownChunk INFO [9, 8, 7]))
   \<and> ListChunk_ADTL_unpack_item \<lparr>byteOffset = 0, byteLength = 10\<rparr>
      [0x6E, 0x6F, 0x74, 0x65, 2, 0, 0, 0, 5, 6] 0
     = Inr (UnknownChunk 0x6E6F7465 [5, 6], 10)
   \<and> pack (UnknownChunk 0x6A756E6B [1, 2, 3]) \<lparr>byteOffset = 2, byteLength = 3\<rparr> [0, 0, 0, 0, 0, 0]
     = Inr [0, 0, 1, 2, 3, 0]"
  using unknown_tags_keep_their_bytes [of "0x6A756E6B" "\<lparr>byteOffset = 0, byteLength = 24\<rparr>" 12
      "[0x52, 0x49, 0x46, 0x46, 16, 0, 0, 0, 0x57, 0x41, 0x56, 0x45,
        0x6A, 0x75, 0x6E, 0x6B, 3, 0, 0, 0, 1, 2, 3, 0]" 3
      "\<lparr>byteOffset = 0, byteLength = 24\<rparr>" "[1, 2, 3]"
      "\<lparr>byteOffset = 2, byteLength = 3\<rparr>" "[0, 0, 0, 0, 0, 0]"]
    unknown_tags_keep_their_bytes [of INFO "\<lparr>byteOffset = 0, byteLength = 7\<rparr>" 0
      "[0x49, 0x4E, 0x46, 0x4F, 9, 8, 7]" 0
      "\<lparr>byteOffset = 0, byteLength = 7\<rparr>" "[]"
      "\<lparr>byteOffset = 0, byteLength = 0\<rparr>" "[]"]
    unknown_tags_keep_their_bytes [of "0x6E6F7465" "\<lparr>byteOffset = 0, byteLength = 10\<rparr>" 0
      "[0x6E, 0x6F, 0x74, 0x65, 2, 0, 0, 0, 5, 6]" 2
      "\<lparr>byteOffset = 0, byteLength = 10\<rparr>" "[]"
      "\<lparr>byteOffset = 0, byteLength = 0\<rparr>" "[]"]
  by (simp add: view_defs tag_defs unpack_defs pack_defs cong: eval_congs)


text \<open>
  C7 says that a chunk with an unregistered tag is decoded to an \<^verbatim>\<open>UnknownChunk\<close> with its
  tag and its bytes, and that encoding writes these bytes again. The 20 bytes of a file whose
  only chunk has the tag \<^verbatim>\<open>junk\<close> and no body, which \<^verbatim>\<open>encode\<close> itself writes for such a
  wave, are decoded to a wave without any chunk: the loop of \<^verbatim>\<open>decode\<close> stops at the
  declared length, 8 bytes before the end, and encoding that wave gives 12 bytes. And the
  48 bytes of a file with a \<^verbatim>\<open>junk\<close> chunk of two bytes and a final LIST chunk of one label
  are decoded, but encoding the decoded wave throws in \<^verbatim>\<open>ListChunk_ADTL_LABL.pack\<close>, so the
  bytes of the unknown chunk are not written at all.
\<close>

theorem unknown_chunk_lost_in_round_trip:
  "encode (new_Wave [UnknownChunk 0x6A756E6B []])
     = Inr [0x52, 0x49, 0x46, 0x46, 12, 0, 0, 0, 0x57, 0x41, 0x56, 0x45,
            0x6A, 0x75, 0x6E, 0x6B, 0, 0, 0, 0]
   \<and> decode [0x52, 0x49, 0x46, 0x46, 12, 0, 0, 0, 0x57, 0x41, 0x56, 0x45,
            0x6A, 0x75, 0x6E, 0x6B, 0, 0, 0, 0]
     = Inr (new_Wave [])
   \<and> chunks (new_Wave []) = []
   \<and> andThen (decode [0x52, 0x49, 0x46, 0x46, 12, 0, 0, 0, 0x57, 0x41, 0x56, 0x45,
            0x6A, 0x75, 0x6E, 0x6B, 0, 0, 0, 0]) encode
     = Inr [0x52, 0x49, 0x46, 0x46, 4, 0, 0, 0, 0x57, 0x41, 0x56, 0x45]
   \<and> decode [0x52, 0x49, 0x46, 0x46, 40, 0, 0, 0, 0x57, 0x41, 0x56, 0x45,
            0x6A, 0x75, 0x6E, 0x6B, 2, 0, 0, 0, 1, 2,
            0x4C, 0x49, 0x53, 0x54, 18, 0, 0, 0, 0x61, 0x64, 0x74, 0x6C,
            0x6C, 0x61, 0x62, 0x6C, 6, 0, 0, 0, 1, 0, 0, 0, 0x61, 0]
     = Inr (new_Wave [UnknownChunk 0x6A756E6B [1, 2],
                      ListChunk (ListChunk_ADTL [ListChunk_ADTL_LABL 1 [0x61]])])
   \<and> andThen (decode [0x52, 0x49, 0x46, 0x46, 40, 0, 0, 0, 0x57, 0x41, 0x56, 0x45,
            0x6A, 0x75, 0x6E, 0x6B, 2, 0, 0, 0, 1, 2,
            0x4C, 0x49, 0x53, 0x54, 18, 0, 0, 0, 0x61, 0x64, 0x74, 0x6C,
            0x6C, 0x61, 0x62, 0x6C, 6, 0, 0, 0, 1, 0, 0, 0, 0x61, 0]) encode
     = Inl RangeError"
  by (simp add: view_defs tag_defs pack_defs unpack_defs wave_defs loop_simps replicate_numeral
        encodeInto_def utf8_def textDecoder_decode_def utf8_start_def utf8_lead_def utf16_def
        cong: eval_congs)


section \<open>Round trips on concrete waves\<close>

lemma unpack_cues_numeral:
  "unpack_cues (numeral k) from idx buffer =
     andThen (Cue_unpack from idx buffer) (\<lambda>c.
     andThen (unpack_cues (pred_numeral k) from (idx + 24) buffer) (\<lambda>cs. Inr (c # cs)))"
  by (simp add: numeral_eq_Suc)

lemma unpack_loops_numeral:
  "unpack_loops (numeral k) from idx buffer =
     andThen (SampleLoop_unpack from idx buffer) (\<lambda>l.
     andThen (unpack_loops (pred_numeral k) from (idx + 24) buffer) (\<lambda>ls. Inr (l # ls)))"
  by (simp add: numeral_eq_Suc)

text \<open>
  A wave with a chunk of every class, nested ones and odd lengths included, is decoded
  from its encoding as it was.
\<close>

lemma round_trip_example:
  "andThen (encode (new_Wave
     [FormatChunk 2 2 44100 176400 4 16 (Some [0xab, 0xcd]),
      CueChunk [Cue 1 10 DATA 0 0 10, Cue 2 20 DATA 0 0 20],
      SampleChunk 22675 (Some [7, 8, 9]) [SampleLoop 0 0 5 25 0 0] 1 2 60 0 0 0,
      ListChunk (ListChunk_ADTL
        [ListChunk_ADTL_LABL 1 [0x61, 0x62], UnknownChunk 0x6E6F7465 [0x41, 0x42]]),
      UnknownChunk 0x6A756E6B [1, 2, 3],
      DataChunk [1, 2, 3, 4, 5]])) decode
   = Inr (new_Wave
     [FormatChunk 2 2 44100 176400 4 16 (Some [0xab, 0xcd]),
      CueChunk [Cue 1 10 DATA 0 0 10, Cue 2 20 DATA 0 0 20],
      SampleChunk 22675 (Some [7, 8, 9]) [SampleLoop 0 0 5 25 0 0] 1 2 60 0 0 0,
      ListChunk (ListChunk_ADTL
        [ListChunk_ADTL_LABL 1 [0x61, 0x62], UnknownChunk 0x6E6F7465 [0x41, 0x42]]),
      UnknownChunk 0x6A756E6B [1, 2, 3],
      DataChunk [1, 2, 3, 4, 5]])"
  by (simp add: view_defs tag_defs pack_defs unpack_defs wave_defs loop_simps replicate_numeral
        encodeInto_def utf8_def textDecoder_decode_def utf8_start_def utf8_lead_def utf16_def
        unpack_cues_numeral unpack_loops_numeral
        cong: eval_congs)


text \<open>
  C1 says that decoding the encoding of a valid wave gives back its chunks. The wave of
  a PCM format chunk and a data chunk without samples is encoded in 44 bytes with the
  declared length 36. The loop of \<^verbatim>\<open>decode\<close> runs while the cursor is below the declared
  length, not below the declared length plus 8, so it stops at cursor 36, where the header
  of the data chunk starts: the decoded wave has one chunk, not two.
\<close>

theorem encode_decode_drops_empty_last_chunk:
  "encode (new_Wave [FormatChunk 1 2 44100 176400 4 16 None, DataChunk []])
     = Inr [0x52, 0x49, 0x46, 0x46, 36, 0, 0, 0, 0x57, 0x41, 0x56, 0x45,
            0x66, 0x6D, 0x74, 0x20, 16, 0, 0, 0,
            1, 0, 2, 0, 0x44, 0xAC, 0, 0, 0x10, 0xB1, 2, 0, 4, 0, 16, 0,
            0x64, 0x61, 0x74, 0x61, 0, 0, 0, 0]
   \<and> decode [0x52, 0x49, 0x46, 0x46, 36, 0, 0, 0, 0x57, 0x41, 0x56, 0x45,
            0x66, 0x6D, 0x74, 0x20, 16, 0, 0, 0,
            1, 0, 2, 0, 0x44, 0xAC, 0, 0, 0x10, 0xB1, 2, 0, 4, 0, 16, 0,
            0x64, 0x61, 0x74, 0x61, 0, 0, 0, 0]
     = Inr (new_Wave [FormatChunk 1 2 44100 176400 4 16 None])
   \<and> chunks (new_Wave [FormatChunk 1 2 44100 176400 4 16 None])
     \<noteq> chunks (new_Wave [FormatChunk 1 2 44100 176400 4 16 None, DataChunk []])"
  by (simp add: view_defs tag_defs pack_defs unpack_defs wave_defs loop_simps replicate_numeral
        cong: eval_congs)

text \<open>
  C2 says that encoding the decoding of an encoded buffer gives back the buffer. For the 44
  bytes above, decoding and encoding again gives 36 bytes: the empty data chunk is gone.
\<close>

theorem decode_encode_shortens_buffer:
  "encode (new_Wave [FormatChunk 1 2 44100 176400 4 16 None, DataChunk []])
     = Inr [0x52, 0x49, 0x46, 0x46, 36, 0, 0, 0, 0x57, 0x41, 0x56, 0x45,
            0x66, 0x6D, 0x74, 0x20, 16, 0, 0, 0,
            1, 0, 2, 0, 0x44, 0xAC, 0, 0, 0x10, 0xB1, 2, 0, 4, 0, 16, 0,
            0x64, 0x61, 0x74, 0x61, 0, 0, 0, 0]
   \<and> andThen (decode [0x52, 0x49, 0x46, 0x46, 36, 0, 0, 0, 0x57, 0x41, 0x56, 0x45,
            0x66, 0x6D, 0x74, 0x20, 16, 0, 0, 0,
            1, 0, 2, 0, 0x44, 0xAC, 0, 0, 0x10, 0xB1, 2, 0, 4, 0, 16, 0,
            0x64, 0x61, 0x74, 0x61, 0, 0, 0, 0]) encode
     = Inr [0x52, 0x49, 0x46, 0x46, 28, 0, 0, 0, 0x57, 0x41, 0x56, 0x45,
            0x66, 0x6D, 0x74, 0x20, 16, 0, 0, 0,
            1, 0, 2, 0, 0x44, 0xAC, 0, 0, 0x10, 0xB1, 2, 0, 4, 0, 16, 0]
   \<and> andThen (decode [0x52, 0x49, 0x46, 0x46, 36, 0, 0, 0, 0x57, 0x41, 0x56, 0x45,
            0x66, 0x6D, 0x74, 0x20, 16, 0, 0, 0,
            1, 0, 2, 0, 0x44, 0xAC, 0, 0, 0x10, 0xB1, 2, 0, 4, 0, 16, 0,
            0x64, 0x61, 0x74, 0x61, 0, 0, 0, 0]) encode
     \<noteq> Inr [0x52, 0x49, 0x46, 0x46, 36, 0, 0, 0, 0x57, 0x41, 0x56, 0x45,
            0x66, 0x6D, 0x74, 0x20, 16, 0, 0, 0,
            1, 0, 2, 0, 0x44, 0xAC, 0, 0, 0x10, 0xB1, 2, 0, 4, 0, 16, 0,
            0x64, 0x61, 0x74, 0x61, 0, 0, 0, 0]"
  by (simp add: view_defs tag_defs pack_defs unpack_defs wave_defs loop_simps replicate_numeral
        cong: eval_congs)

section \<open>Alignment inside ListChunk_ADTL\<close>

text \<open>\<^verbatim>\<open>ListChunk_ADTL.length\<close> adds 8 and the length of each item, and no pad byte.\<close>

lemma length_reduce_sum:
  "length_reduce cs a = Inr n \<Longrightarrow>
     \<exists>ns. map length_chunk cs = map Inr ns \<and> n = a + (\<Sum>k\<leftarrow>ns. 8 + k)"
proof (induction cs arbitrary: a)
  case Nil
  then show ?case by simp
next
  case (Cons c cs)
  from Cons.prems obtain k where k: "length_chunk c = Inr k"
    and rest: "length_reduce cs (a + 8 + k) = Inr n"
    by (auto split: sum.splits)
  from Cons.IH [OF rest] obtain ns where
    "map length_chunk cs = map Inr ns" "n = a + 8 + k + (\<Sum>j\<leftarrow>ns. 8 + j)"
    by blast
  with k have "map length_chunk (c # cs) = map Inr (k # ns) \<and> n = a + (\<Sum>j\<leftarrow>k # ns. 8 + j)"
    by simp
  then show ?case by blast
qed


text \<open>
  C3 says that \<^verbatim>\<open>ListChunk_ADTL.pack\<close> puts a pad byte after an item that ends at an odd
  offset, as \<^verbatim>\<open>unpack\<close> expects. For two unknown items of one byte each, \<^verbatim>\<open>length()\<close> is 18
  and \<^verbatim>\<open>pack\<close> writes the header of the second item at offset 9, directly after the payload
  of the first. \<^verbatim>\<open>unpack\<close> skips to offset 10 and throws on these 18 bytes; it reads the
  two items from the 20 bytes that have the pad bytes.
\<close>

theorem ListChunk_ADTL_pack_writes_no_pad:
  "length_chunk (ListChunk_ADTL [UnknownChunk 0x6E6F7465 [0x41], UnknownChunk 0x6E6F7465 [0x42]])
     = Inr 18
   \<and> pack (ListChunk_ADTL [UnknownChunk 0x6E6F7465 [0x41], UnknownChunk 0x6E6F7465 [0x42]])
        \<lparr>byteOffset = 0, byteLength = 18\<rparr> (replicate 18 0)
     = Inr [0x6E, 0x6F, 0x74, 0x65, 1, 0, 0, 0, 0x41,
            0x6E, 0x6F, 0x74, 0x65, 1, 0, 0, 0, 0x42]
   \<and> ListChunk_ADTL_unpack \<lparr>byteOffset = 0, byteLength = 18\<rparr> adtl
        [0x6E, 0x6F, 0x74, 0x65, 1, 0, 0, 0, 0x41,
         0x6E, 0x6F, 0x74, 0x65, 1, 0, 0, 0, 0x42]
     = Inl RangeError
   \<and> ListChunk_ADTL_unpack \<lparr>byteOffset = 0, byteLength = 20\<rparr> adtl
        [0x6E, 0x6F, 0x74, 0x65, 1, 0, 0, 0, 0x41, 0,
         0x6E, 0x6F, 0x74, 0x65, 1, 0, 0, 0, 0x42, 0]
     = Inr (ListChunk_ADTL [UnknownChunk 0x6E6F7465 [0x41], UnknownChunk 0x6E6F7465 [0x42]])"
  by (simp add: view_defs tag_defs pack_defs unpack_defs loop_simps replicate_numeral
        cong: eval_congs)

section \<open>A label at the end of the buffer\<close>

text \<open>
  The window of \<^verbatim>\<open>ListChunk_ADTL_LABL.pack\<close> leaves the buffer whenever fewer than four
  bytes of the buffer follow the view.
\<close>

lemma setUint32_length:
  assumes "setUint32 view idx v le buffer = Inr buffer'"
    and "byteOffset view + byteLength view \<le> length buffer"
  shows "length buffer' = length buffer"
proof -
  have l4: "length (u32_bytes v) = 4"
    by (simp add: u32_bytes_def Let_def)
  from assms show ?thesis
    by (auto simp: setUint32_def set_bytes_def l4 length_write_bytes split: if_splits)
qed

lemma label_pack_needs_room_behind_view:
  assumes "byteOffset into + byteLength into \<le> length buffer"
    and "length buffer < byteOffset into + byteLength into + 4"
  shows "isl (ListChunk_ADTL_LABL_pack i l into buffer)"
proof (cases "setUint32 into 0 i True buffer")
  case (Inl e)
  then show ?thesis
    by (simp add: ListChunk_ADTL_LABL_pack_def)
next
  case (Inr buffer')
  then have "length buffer' = length buffer"
    using assms(1) by (rule setUint32_length)
  with Inr assms(2) show ?thesis
    by (simp add: ListChunk_ADTL_LABL_pack_def new_Uint8Array_def)
qed

text \<open>
  C4 says that \<^verbatim>\<open>encode\<close> succeeds on every structurally valid wave. A wave that ends with
  a LIST chunk of one label is valid, but \<^verbatim>\<open>ListChunk_ADTL_LABL.pack\<close> asks for a window that
  starts 4 bytes into its view and has the length of the whole view; the view of the last
  label ends where the buffer ends, so the window leaves the buffer and \<^verbatim>\<open>encode\<close> throws.
\<close>

theorem encode_throws_on_final_label:
  "length_chunk (ListChunk (ListChunk_ADTL [ListChunk_ADTL_LABL 1 [0x61]])) = Inr 18
   \<and> encode (new_Wave [FormatChunk 1 2 44100 176400 4 16 None, DataChunk [1, 2],
                        ListChunk (ListChunk_ADTL [ListChunk_ADTL_LABL 1 [0x61]])])
     = Inl RangeError"
  by (simp add: view_defs tag_defs pack_defs wave_defs replicate_numeral encodeInto_def utf8_def
        cong: eval_congs)

section \<open>The length of a label\<close>

text \<open>For a label of ASCII characters the two counts agree.\<close>

lemma code_points_ascii: "\<forall>u\<in>set us. u < 128 \<Longrightarrow> code_points us = us"
  by (induction us rule: code_points.induct) auto

lemma utf8_ascii: "c < 128 \<Longrightarrow> utf8 c = [of_nat c]"
  by (simp add: utf8_def)

lemma length_concat_utf8_ascii:
  "\<forall>u\<in>set us. u < 128 \<Longrightarrow> length (concat (map utf8 us)) = length us"
  by (induction us) (simp_all add: utf8_ascii)

lemma label_length_ascii:
  assumes "\<forall>u\<in>set l. unat u < 128"
  shows "length_chunk (ListChunk_ADTL_LABL i l) = Inr (align (4 + length (utf8_bytes l) + 1))"
proof -
  from assms have a: "\<forall>u\<in>set (map unat l). u < 128"
    by simp
  have "length (utf8_bytes l) = length l"
    unfolding utf8_bytes_def code_points_ascii [OF a]
    using length_concat_utf8_ascii [OF a] by simp
  then show ?thesis
    by simp
qed


text \<open>
  C5 says that \<^verbatim>\<open>length()\<close> of a label chunk is 4 plus the number of UTF-8 bytes of the
  label plus 1, rounded up to even. The source counts UTF-16 code units: for the label of the
  one character U+00E9, which has two UTF-8 bytes, \<^verbatim>\<open>length()\<close> is 6 and not 8.
\<close>

theorem label_length_counts_code_units:
  "length_chunk (ListChunk_ADTL_LABL 1 [0xE9]) = Inr 6
   \<and> utf8_bytes [0xE9] = [0xC3, 0xA9]
   \<and> align (4 + length (utf8_bytes [0xE9]) + 1) = 8"
  by (simp add: align_def utf8_bytes_def utf8_def)


end
